theory Spec2Isabelle
  imports Complex_Main
begin

section \<open>Cell values of a float64 column\<close>

text \<open>
  The notebook \<^verbatim>\<open>algo_trading_strategies.ipynb\<close> keeps every series as a float64 column
  of the DataFrame \<^verbatim>\<open>data\<close>. A cell is either a number, one of the two infinities, or
  NaN (the "undefined" of the specification). Finite cells are modelled as exact reals:
  rounding, overflow and the sign of zero are not modelled in the columns. The special values follow IEEE 754,
  which is what numpy and pandas compute with: NaN is absorbing, a nonzero number divided
  by zero is an infinity, \<open>0/0\<close> and \<open>inf - inf\<close> are NaN, and every comparison with
  NaN is false.
\<close>

datatype fl = NaN | NInf | Fin real | PInf

fun fneg :: "fl \<Rightarrow> fl" where
  "fneg NaN = NaN"
| "fneg NInf = PInf"
| "fneg PInf = NInf"
| "fneg (Fin a) = Fin (- a)"

fun fadd :: "fl \<Rightarrow> fl \<Rightarrow> fl" where
  "fadd NaN y = NaN"
| "fadd x NaN = NaN"
| "fadd PInf NInf = NaN"
| "fadd NInf PInf = NaN"
| "fadd PInf y = PInf"
| "fadd x PInf = PInf"
| "fadd NInf y = NInf"
| "fadd x NInf = NInf"
| "fadd (Fin a) (Fin b) = Fin (a + b)"

definition fsub :: "fl \<Rightarrow> fl \<Rightarrow> fl" where
  "fsub x y = fadd x (fneg y)"

fun fmul :: "fl \<Rightarrow> fl \<Rightarrow> fl" where
  "fmul NaN y = NaN"
| "fmul x NaN = NaN"
| "fmul (Fin a) (Fin b) = Fin (a * b)"
| "fmul (Fin a) PInf = (if a = 0 then NaN else if 0 < a then PInf else NInf)"
| "fmul (Fin a) NInf = (if a = 0 then NaN else if 0 < a then NInf else PInf)"
| "fmul PInf (Fin b) = (if b = 0 then NaN else if 0 < b then PInf else NInf)"
| "fmul NInf (Fin b) = (if b = 0 then NaN else if 0 < b then NInf else PInf)"
| "fmul PInf PInf = PInf"
| "fmul NInf NInf = PInf"
| "fmul PInf NInf = NInf"
| "fmul NInf PInf = NInf"

fun fdiv :: "fl \<Rightarrow> fl \<Rightarrow> fl" where
  "fdiv NaN y = NaN"
| "fdiv x NaN = NaN"
| "fdiv (Fin a) (Fin b) =
     (if b = 0 then (if a = 0 then NaN else if 0 < a then PInf else NInf)
      else Fin (a / b))"
| "fdiv (Fin a) PInf = Fin 0"
| "fdiv (Fin a) NInf = Fin 0"
| "fdiv PInf (Fin b) = (if 0 \<le> b then PInf else NInf)"
| "fdiv NInf (Fin b) = (if 0 \<le> b then NInf else PInf)"
| "fdiv PInf PInf = NaN"
| "fdiv PInf NInf = NaN"
| "fdiv NInf PInf = NaN"
| "fdiv NInf NInf = NaN"

text \<open>Comparisons \<^verbatim>\<open><\<close>, \<^verbatim>\<open>>\<close> and \<^verbatim>\<open>==\<close> of two cells; false as soon as one is NaN.\<close>

fun flt :: "fl \<Rightarrow> fl \<Rightarrow> bool" where
  "flt NaN y = False"
| "flt x NaN = False"
| "flt (Fin a) (Fin b) = (a < b)"
| "flt NInf NInf = False"
| "flt NInf y = True"
| "flt x NInf = False"
| "flt PInf y = False"
| "flt x PInf = True"

definition fgt :: "fl \<Rightarrow> fl \<Rightarrow> bool" where
  "fgt x y = flt y x"

fun feq :: "fl \<Rightarrow> fl \<Rightarrow> bool" where
  "feq NaN y = False"
| "feq x NaN = False"
| "feq x y = (x = y)"

section \<open>The momentum signal\<close>

text \<open>
  \<^verbatim>\<open>
  data['Signal'] = np.where(
      (data['Momentum_5D'] > 0) & (data['RSI'] > 30) & (data['RSI'] < 70),
      1,
      np.where(
          (data['Momentum_5D'] < 0) & (data['RSI'] > 70),
          -1,
          0
      )
  )
  \<close>
  \<open>np.where\<close> works row by row; \<open>signal_cell\<close> is one row of it, on the row's
  \<open>Momentum_5D\<close> and \<open>RSI\<close> cells. Buy is 1, Sell is -1, Neutral is 0.
\<close>

definition buy_cond :: "fl \<Rightarrow> fl \<Rightarrow> bool" where
  "buy_cond m r = (fgt m (Fin 0) \<and> fgt r (Fin 30) \<and> flt r (Fin 70))"

definition sell_cond :: "fl \<Rightarrow> fl \<Rightarrow> bool" where
  "sell_cond m r = (flt m (Fin 0) \<and> fgt r (Fin 70))"

definition signal_cell :: "fl \<Rightarrow> fl \<Rightarrow> int" where
  "signal_cell m r = (if buy_cond m r then 1 else if sell_cond m r then - 1 else 0)"

section \<open>The mean-reversion markers\<close>

text \<open>
  The mean-reversion strategy has no signal column: the Buy markers are the rows selected
  by \<^verbatim>\<open>data.loc[data['Z-Score'] < -1.5]\<close> and the Sell markers those selected by
  \<^verbatim>\<open>data.loc[data['Z-Score'] > 1.5]\<close>. A row in neither selection carries no marker
  (Neutral).
\<close>

definition mr_buy :: "fl \<Rightarrow> bool" where
  "mr_buy z = flt z (Fin (- (3 / 2)))"

definition mr_sell :: "fl \<Rightarrow> bool" where
  "mr_sell z = fgt z (Fin (3 / 2))"

definition mr_neutral :: "fl \<Rightarrow> bool" where
  "mr_neutral z = (\<not> mr_buy z \<and> \<not> mr_sell z)"

text \<open>
  The two selections on a Z-Score column \<open>zs\<close>, whatever cells it holds: the row numbers
  kept by \<^verbatim>\<open>data.loc[data['Z-Score'] < -1.5]\<close> and by \<^verbatim>\<open>data.loc[data['Z-Score'] > 1.5]\<close>.
\<close>

definition buy_rows :: "fl list \<Rightarrow> nat list" where
  "buy_rows zs = filter (\<lambda>t. mr_buy (zs ! t)) [0..<length zs]"

definition sell_rows :: "fl list \<Rightarrow> nat list" where
  "sell_rows zs = filter (\<lambda>t. mr_sell (zs ! t)) [0..<length zs]"

section \<open>Library operations on the Close column\<close>

text \<open>
  The notebook computes every indicator by calling pandas and the \<^verbatim>\<open>ta\<close> package on
  \<^verbatim>\<open>data['Close']\<close>. The Close column is a list of reals in row order (the rows are
  the trading days in ascending order, so the index of a row stands for its timestamp,
  and appending later days is appending to the list). The library operations are modelled
  by what they compute on a column without missing values.

  \<^verbatim>\<open>Series.shift(p)\<close> moves the rows down by \<open>p\<close> and fills the first \<open>p\<close> rows with NaN.
  \<^verbatim>\<open>Series.pct_change(periods=p)\<close> is \<^verbatim>\<open>x / x.shift(p) - 1\<close> and
  \<^verbatim>\<open>Series.diff(1)\<close> is \<^verbatim>\<open>x - x.shift(1)\<close>.
\<close>

definition shift :: "nat \<Rightarrow> real list \<Rightarrow> fl list" where
  "shift p xs = map (\<lambda>t. if t < p then NaN else Fin (xs ! (t - p))) [0..<length xs]"

definition pct_change :: "nat \<Rightarrow> real list \<Rightarrow> fl list" where
  "pct_change p xs = map2 (\<lambda>x s. fsub (fdiv (Fin x) s) (Fin 1)) xs (shift p xs)"

definition diff1 :: "real list \<Rightarrow> fl list" where
  "diff1 xs = map2 (\<lambda>x s. fsub (Fin x) s) xs (shift 1 xs)"

text \<open>
  \<^verbatim>\<open>Series.rolling(window=w)\<close> has \<open>min_periods = w\<close>: a row with fewer than \<open>w\<close> rows up
  to and including itself gets NaN, every other row aggregates the trailing \<open>w\<close> values.
  \<^verbatim>\<open>.mean()\<close> is their arithmetic mean; \<^verbatim>\<open>.std(ddof)\<close> is the square root of the sum
  of squared deviations from that mean divided by \<open>w - ddof\<close>, NaN unless \<open>w > ddof\<close>.
  Both are given here by their value in exact arithmetic; the float64 running update by
  which pandas evaluates them is not modelled.
\<close>

definition window_at :: "nat \<Rightarrow> nat \<Rightarrow> real list \<Rightarrow> real list" where
  "window_at w t xs = take w (drop (Suc t - w) xs)"

definition mean :: "real list \<Rightarrow> real" where
  "mean ys = sum_list ys / real (length ys)"

definition var :: "nat \<Rightarrow> real list \<Rightarrow> real" where
  "var ddof ys = sum_list (map (\<lambda>y. (y - mean ys)\<^sup>2) ys) / (real (length ys) - real ddof)"

definition rolling_mean :: "nat \<Rightarrow> real list \<Rightarrow> fl list" where
  "rolling_mean w xs =
     map (\<lambda>t. if Suc t < w then NaN else Fin (mean (window_at w t xs))) [0..<length xs]"

definition rolling_std :: "nat \<Rightarrow> nat \<Rightarrow> real list \<Rightarrow> fl list" where
  "rolling_std w ddof xs =
     map (\<lambda>t. if Suc t < w \<or> w \<le> ddof then NaN
              else Fin (sqrt (var ddof (window_at w t xs)))) [0..<length xs]"

text \<open>
  \<^verbatim>\<open>Series.ewm(alpha=a, min_periods=m, adjust=False).mean()\<close> is the recursion
  \<open>y\<^sub>0 = x\<^sub>0\<close>, \<open>y\<^sub>t = (1 - a) y\<^sub>t\<^sub>-\<^sub>1 + a x\<^sub>t\<close>; a row is NaN until \<open>m\<close> observations
  (cells that are not NaN) have been seen up to and including it. The two series the
  notebook smooths contain no NaN, so the way pandas skips a NaN observation inside the
  recursion is not modelled.
\<close>

fun ewm_from :: "real \<Rightarrow> fl \<Rightarrow> fl list \<Rightarrow> fl list" where
  "ewm_from a y [] = []"
| "ewm_from a y (x # xs) =
     (let y' = fadd (fmul (Fin (1 - a)) y) (fmul (Fin a) x) in y' # ewm_from a y' xs)"

definition ewm_raw :: "real \<Rightarrow> fl list \<Rightarrow> fl list" where
  "ewm_raw a xs = (case xs of [] \<Rightarrow> [] | x # rest \<Rightarrow> x # ewm_from a x rest)"

definition nobs :: "fl list \<Rightarrow> nat" where
  "nobs xs = length (filter (\<lambda>x. x \<noteq> NaN) xs)"

definition ewm_mean :: "real \<Rightarrow> nat \<Rightarrow> fl list \<Rightarrow> fl list" where
  "ewm_mean a minp xs =
     map (\<lambda>t. if minp \<le> nobs (take (Suc t) xs) then ewm_raw a xs ! t else NaN)
       [0..<length xs]"

text \<open>
  \<^verbatim>\<open>ta.momentum.RSIIndicator(close, window, fillna=False)\<close> computes, in its \<^verbatim>\<open>_run\<close>:
  \<^verbatim>\<open>
  diff = self._close.diff(1)
  up_direction = diff.where(diff > 0, 0.0)
  down_direction = -diff.where(diff < 0, 0.0)
  min_periods = 0 if self._fillna else self._window
  emaup = up_direction.ewm(alpha=1 / self._window, min_periods=min_periods, adjust=False).mean()
  emadn = down_direction.ewm(alpha=1 / self._window, min_periods=min_periods, adjust=False).mean()
  relative_strength = emaup / emadn
  self._rsi = pd.Series(
      np.where(emadn == 0, 100, 100 - (100 / (1 + relative_strength))),
      index=self._close.index)
  \<close>
  and \<^verbatim>\<open>rsi()\<close> returns that series. \<^verbatim>\<open>s.where(c, v)\<close> keeps a cell where \<open>c\<close> holds
  and puts \<open>v\<close> elsewhere, so the NaN of the first row of \<open>diff\<close> becomes 0.
\<close>

definition up_direction :: "real list \<Rightarrow> fl list" where
  "up_direction close = map (\<lambda>d. if fgt d (Fin 0) then d else Fin 0) (diff1 close)"

definition down_direction :: "real list \<Rightarrow> fl list" where
  "down_direction close = map (\<lambda>d. fneg (if flt d (Fin 0) then d else Fin 0)) (diff1 close)"

definition emaup :: "nat \<Rightarrow> real list \<Rightarrow> fl list" where
  "emaup window close = ewm_mean (1 / real window) window (up_direction close)"

definition emadn :: "nat \<Rightarrow> real list \<Rightarrow> fl list" where
  "emadn window close = ewm_mean (1 / real window) window (down_direction close)"

definition relative_strength :: "nat \<Rightarrow> real list \<Rightarrow> fl list" where
  "relative_strength window close = map2 fdiv (emaup window close) (emadn window close)"

definition rsi_cell :: "fl \<Rightarrow> fl \<Rightarrow> fl" where
  "rsi_cell dn rs =
     (if feq dn (Fin 0) then Fin 100
      else fsub (Fin 100) (fdiv (Fin 100) (fadd (Fin 1) rs)))"

definition rsi :: "nat \<Rightarrow> real list \<Rightarrow> fl list" where
  "rsi window close = map2 rsi_cell (emadn window close) (relative_strength window close)"

section \<open>The columns of the momentum strategy\<close>

text \<open>
  \<^verbatim>\<open>
  data['Momentum_1D'] = data['Close'].pct_change(periods=1)
  data['Momentum_5D'] = data['Close'].pct_change(periods=5)
  data['RSI'] = ta.momentum.RSIIndicator(data['Close'], window=14).rsi()
  \<close>
\<close>

definition Momentum_1D :: "real list \<Rightarrow> fl list" where
  "Momentum_1D close = pct_change 1 close"

definition Momentum_5D :: "real list \<Rightarrow> fl list" where
  "Momentum_5D close = pct_change 5 close"

definition RSI :: "real list \<Rightarrow> fl list" where
  "RSI close = rsi 14 close"

definition Signal :: "real list \<Rightarrow> int list" where
  "Signal close = map2 signal_cell (Momentum_5D close) (RSI close)"

section \<open>The columns of the mean-reversion strategy\<close>

text \<open>
  \<^verbatim>\<open>
  window = 20
  data['SMA'] = data['Close'].rolling(window=window).mean()
  data['STD'] = data['Close'].rolling(window=window).std()
  data['Upper'] = data['SMA'] + (data['STD'] * 1.5)
  data['Lower'] = data['SMA'] - (data['STD'] * 1.5)
  data['Z-Score'] = (data['Close'] - data['SMA']) / data['STD']
  \<close>
  \<^verbatim>\<open>std()\<close> is called without \<open>ddof\<close>, whose default in pandas is 1.
\<close>

definition window :: nat where
  "window = 20"

definition SMA :: "real list \<Rightarrow> fl list" where
  "SMA close = rolling_mean window close"

definition STD :: "real list \<Rightarrow> fl list" where
  "STD close = rolling_std window 1 close"

definition Upper :: "real list \<Rightarrow> fl list" where
  "Upper close = map2 (\<lambda>m s. fadd m (fmul s (Fin (3 / 2)))) (SMA close) (STD close)"

definition Lower :: "real list \<Rightarrow> fl list" where
  "Lower close = map2 (\<lambda>m s. fsub m (fmul s (Fin (3 / 2)))) (SMA close) (STD close)"

definition Z_Score :: "real list \<Rightarrow> fl list" where
  "Z_Score close = map2 fdiv (map2 fsub (map Fin close) (SMA close)) (STD close)"

text \<open>The rows that get a Buy marker and those that get a Sell marker.\<close>

definition buy_markers :: "real list \<Rightarrow> nat list" where
  "buy_markers close = filter (\<lambda>t. mr_buy (Z_Score close ! t)) [0..<length close]"

definition sell_markers :: "real list \<Rightarrow> nat list" where
  "sell_markers close = filter (\<lambda>t. mr_sell (Z_Score close ! t)) [0..<length close]"

section \<open>One row of the mean-reversion columns\<close>

text \<open>
  The band and Z-score lines of the notebook work row by row on the \<open>Close\<close>, \<open>SMA\<close> and
  \<open>STD\<close> cells of the row. \<open>rolling_std\<close> above is the value of the rolling standard
  deviation in exact arithmetic; pandas computes it in float64 by a running update, and
  its cell can differ from the exact value in the last digits and can be \<open>0.0\<close> on a
  window whose closes are not all equal. What depends on such cells is therefore stated
  on one row, for every value the \<open>SMA\<close> and \<open>STD\<close> cells may hold.
\<close>

definition upper_cell :: "fl \<Rightarrow> fl \<Rightarrow> fl" where
  "upper_cell m s = fadd m (fmul s (Fin (3 / 2)))"

definition lower_cell :: "fl \<Rightarrow> fl \<Rightarrow> fl" where
  "lower_cell m s = fsub m (fmul s (Fin (3 / 2)))"

definition z_score_cell :: "fl \<Rightarrow> fl \<Rightarrow> fl \<Rightarrow> fl" where
  "z_score_cell c m s = fdiv (fsub c m) s"

section \<open>The smoothed averages in the words of the specification\<close>

text \<open>
  The single-period gain of row \<open>t\<close> is the rise of the close over row \<open>t - 1\<close>, 0 if it
  did not rise; the loss is the fall, 0 if it did not fall; row 0 has neither. The
  14-period exponentially smoothed average of a sequence \<open>x\<close> starts at \<open>x 0\<close> and moves
  by \<open>avg (t + 1) = (13 avg t + x (t + 1)) / 14\<close>.
\<close>

definition gain :: "real list \<Rightarrow> nat \<Rightarrow> real" where
  "gain close t = (if t = 0 then 0 else max (close ! t - close ! (t - 1)) 0)"

definition loss :: "real list \<Rightarrow> nat \<Rightarrow> real" where
  "loss close t = (if t = 0 then 0 else max (close ! (t - 1) - close ! t) 0)"

fun wilder_avg :: "(nat \<Rightarrow> real) \<Rightarrow> nat \<Rightarrow> real" where
  "wilder_avg x 0 = x 0"
| "wilder_avg x (Suc t) = (13 * wilder_avg x t + x (Suc t)) / 14"

section \<open>Rounding to float64\<close>

text \<open>
  The result of one float64 operation on numbers is the exact result rounded to the
  nearest number with a 53-bit significand, ties to the even significand. \<open>f64\<close> is that
  rounding for a result in the normal range (no overflow, no subnormal numbers): the
  spacing of the floats around \<open>x\<close> is \<open>2 ^ (e - 52)\<close> where \<open>2 ^ e \<le> |x| < 2 ^ (e + 1)\<close>.
  \<open>upper_f64\<close>, \<open>lower_f64\<close> and \<open>z_f64\<close> are the band and Z-score lines of the notebook
  on the numbers of one row, with every operation rounded.
\<close>

definition round_even :: "real \<Rightarrow> int" where
  "round_even x =
     (let n = \<lfloor>x\<rfloor>; r = x - of_int n
      in if r < 1 / 2 then n else if 1 / 2 < r then n + 1
         else if even n then n else n + 1)"

definition ulp_of :: "real \<Rightarrow> real" where
  "ulp_of x = 2 powi (\<lfloor>log 2 \<bar>x\<bar>\<rfloor> - 52)"

definition f64 :: "real \<Rightarrow> real" where
  "f64 x = (if x = 0 then 0 else of_int (round_even (x / ulp_of x)) * ulp_of x)"

definition upper_f64 :: "real \<Rightarrow> real \<Rightarrow> real" where
  "upper_f64 m s = f64 (m + f64 (s * (3 / 2)))"

definition lower_f64 :: "real \<Rightarrow> real \<Rightarrow> real" where
  "lower_f64 m s = f64 (m - f64 (s * (3 / 2)))"

definition z_f64 :: "real \<Rightarrow> real \<Rightarrow> real \<Rightarrow> real" where
  "z_f64 c m s = f64 (f64 (c - m) / s)"

section \<open>Example series\<close>

text \<open>
  Close columns used to run the columns on concrete data. \<open>spec_example\<close> is the
  example scenario of the specification. \<open>band_break_up\<close> and \<open>band_break_down\<close> have
  20 rows with mean 10 and sample standard deviation 2, and end 2 standard deviations
  above and below the mean. \<open>choppy\<close> alternates, \<open>spike_fade\<close> rises steeply and then
  slips for five days, \<open>steady_rise\<close> never falls.
\<close>

definition spec_example :: "real list" where
  "spec_example = [100, 102, 101, 105, 104, 108]"

definition band_break_up :: "real list" where
  "band_break_up = [6, 12, 12, 12, 12, 12, 8, 8, 8, 8, 8, 11, 9, 11, 9, 10, 10, 10, 10, 14]"

definition band_break_down :: "real list" where
  "band_break_down = [14, 12, 12, 12, 12, 12, 8, 8, 8, 8, 8, 11, 9, 11, 9, 10, 10, 10, 10, 6]"

definition choppy :: "real list" where
  "choppy = [9, 10, 9, 10, 9, 10, 9, 10, 9, 10, 9, 10, 9, 10]"

definition spike_fade :: "real list" where
  "spike_fade = [10, 20, 30, 40, 50, 60, 70, 80, 100, 99, 98, 97, 96, 95]"

definition steady_rise :: "real list" where
  "steady_rise = [1, 2, 3, 4, 5, 6, 7, 8, 9, 10, 11, 12, 13, 14, 15]"

section \<open>Facts about cells\<close>

lemma flt_Fin_right: "flt x (Fin b) = (x = NInf \<or> (\<exists>a. x = Fin a \<and> a < b))"
  by (cases x) simp_all

lemma flt_Fin_left: "flt (Fin a) y = (y = PInf \<or> (\<exists>b. y = Fin b \<and> a < b))"
  by (cases y) simp_all

lemma flt_asym: "flt x y \<Longrightarrow> \<not> flt y x"
  by (cases x; cases y) simp_all

lemma flt_NaN_right [simp]: "flt x NaN = False"
  by (cases x) simp_all

lemma fadd_NaN_right [simp]: "fadd x NaN = NaN"
  by (cases x) simp_all

lemma fsub_NaN_left [simp]: "fsub NaN y = NaN"
  by (simp add: fsub_def)

lemma fsub_NaN_right [simp]: "fsub x NaN = NaN"
  by (simp add: fsub_def)

lemma fsub_Fin [simp]: "fsub (Fin a) (Fin b) = Fin (a - b)"
  by (simp add: fsub_def)

lemma fdiv_NaN_right [simp]: "fdiv x NaN = NaN"
  by (cases x) simp_all

lemma fmul_NaN_right [simp]: "fmul x NaN = NaN"
  by (cases x) simp_all

section \<open>Rows of the columns\<close>

lemma length_shift [simp]: "length (shift p xs) = length xs"
  by (simp add: shift_def)

lemma nth_shift: "t < length xs \<Longrightarrow> shift p xs ! t = (if t < p then NaN else Fin (xs ! (t - p)))"
  by (simp add: shift_def)

lemma length_pct_change [simp]: "length (pct_change p xs) = length xs"
  by (simp add: pct_change_def)

lemma nth_pct_change:
  "t < length xs \<Longrightarrow> pct_change p xs ! t =
     (if t < p then NaN else fsub (fdiv (Fin (xs ! t)) (Fin (xs ! (t - p)))) (Fin 1))"
  by (simp add: pct_change_def nth_shift)

lemma length_diff1 [simp]: "length (diff1 xs) = length xs"
  by (simp add: diff1_def)

lemma nth_diff1:
  "t < length xs \<Longrightarrow> diff1 xs ! t = (if t = 0 then NaN else Fin (xs ! t - xs ! (t - 1)))"
  by (simp add: diff1_def nth_shift)

lemma length_rolling_mean [simp]: "length (rolling_mean w xs) = length xs"
  by (simp add: rolling_mean_def)

lemma length_rolling_std [simp]: "length (rolling_std w d xs) = length xs"
  by (simp add: rolling_std_def)

lemma length_ewm_mean [simp]: "length (ewm_mean a m xs) = length xs"
  by (simp add: ewm_mean_def)

lemma length_up_direction [simp]: "length (up_direction xs) = length xs"
  by (simp add: up_direction_def)

lemma length_down_direction [simp]: "length (down_direction xs) = length xs"
  by (simp add: down_direction_def)

lemma length_emaup [simp]: "length (emaup w xs) = length xs"
  by (simp add: emaup_def)

lemma length_emadn [simp]: "length (emadn w xs) = length xs"
  by (simp add: emadn_def)

lemma length_rsi [simp]: "length (rsi w xs) = length xs"
  by (simp add: rsi_def relative_strength_def)

lemma length_RSI [simp]: "length (RSI xs) = length xs"
  by (simp add: RSI_def)

lemma length_Momentum_5D [simp]: "length (Momentum_5D xs) = length xs"
  by (simp add: Momentum_5D_def)

lemma length_Momentum_1D [simp]: "length (Momentum_1D xs) = length xs"
  by (simp add: Momentum_1D_def)

lemma length_Signal [simp]: "length (Signal xs) = length xs"
  by (simp add: Signal_def)

lemma length_SMA [simp]: "length (SMA xs) = length xs"
  by (simp add: SMA_def)

lemma length_STD [simp]: "length (STD xs) = length xs"
  by (simp add: STD_def)

lemma length_Upper [simp]: "length (Upper xs) = length xs"
  by (simp add: Upper_def)

lemma length_Lower [simp]: "length (Lower xs) = length xs"
  by (simp add: Lower_def)

lemma length_Z_Score [simp]: "length (Z_Score xs) = length xs"
  by (simp add: Z_Score_def)

lemma nth_Signal:
  "t < length close \<Longrightarrow>
   Signal close ! t = signal_cell (Momentum_5D close ! t) (RSI close ! t)"
  by (simp add: Signal_def)

lemma buy_sell_disjoint: "\<not> (buy_cond m r \<and> sell_cond m r)"
  by (auto simp: buy_cond_def sell_cond_def fgt_def dest: flt_asym)

lemma mr_buy_sell_disjoint: "\<not> (mr_buy z \<and> mr_sell z)"
  by (cases z) (simp_all add: mr_buy_def mr_sell_def fgt_def)

text \<open>
  Claim C1. At every row \<open>t\<close> the momentum signal is Buy (1) exactly when
  \<open>Momentum_5D(t) > 0\<close> and \<open>30 < RSI(t) < 70\<close>, Sell (-1) exactly when
  \<open>Momentum_5D(t) < 0\<close> and \<open>RSI(t) > 70\<close>, and Neutral (0) in every other case; in
  particular it is Neutral when \<open>Momentum_5D(t)\<close> or \<open>RSI(t)\<close> is NaN, when \<open>RSI(t)\<close>
  is exactly 30 or 70, and when \<open>Momentum_5D(t)\<close> is exactly 0.
\<close>
theorem momentum_signal_classification:
  assumes "t < length close"
  shows "(Signal close ! t = 1 \<longleftrightarrow>
            fgt (Momentum_5D close ! t) (Fin 0) \<and> fgt (RSI close ! t) (Fin 30)
            \<and> flt (RSI close ! t) (Fin 70))
       \<and> (Signal close ! t = - 1 \<longleftrightarrow>
            flt (Momentum_5D close ! t) (Fin 0) \<and> fgt (RSI close ! t) (Fin 70))
       \<and> (Signal close ! t = 0 \<longleftrightarrow>
            \<not> (fgt (Momentum_5D close ! t) (Fin 0) \<and> fgt (RSI close ! t) (Fin 30)
                \<and> flt (RSI close ! t) (Fin 70))
            \<and> \<not> (flt (Momentum_5D close ! t) (Fin 0) \<and> fgt (RSI close ! t) (Fin 70)))
       \<and> (Momentum_5D close ! t = NaN \<or> RSI close ! t = NaN
            \<or> RSI close ! t = Fin 30 \<or> RSI close ! t = Fin 70
            \<or> Momentum_5D close ! t = Fin 0
          \<longrightarrow> Signal close ! t = 0)"
proof -
  have disj: "\<not> (buy_cond m r \<and> sell_cond m r)" for m r
    by (rule buy_sell_disjoint)
  show ?thesis
    using disj [of "Momentum_5D close ! t" "RSI close ! t"]
    by (auto simp: nth_Signal [OF assms] signal_cell_def buy_cond_def sell_cond_def fgt_def)
qed


section \<open>Rolling windows\<close>

lemma nth_rolling_mean:
  "t < length xs \<Longrightarrow>
   rolling_mean w xs ! t = (if Suc t < w then NaN else Fin (mean (window_at w t xs)))"
  by (simp add: rolling_mean_def)

lemma nth_rolling_std:
  "t < length xs \<Longrightarrow>
   rolling_std w d xs ! t =
     (if Suc t < w \<or> w \<le> d then NaN else Fin (sqrt (var d (window_at w t xs))))"
  by (simp add: rolling_std_def)

lemma nth_SMA:
  "t < length close \<Longrightarrow>
   SMA close ! t = (if t < 19 then NaN else Fin (mean (window_at 20 t close)))"
  by (auto simp: SMA_def window_def nth_rolling_mean)

lemma nth_STD:
  "t < length close \<Longrightarrow>
   STD close ! t = (if t < 19 then NaN else Fin (sqrt (var 1 (window_at 20 t close))))"
  by (auto simp: STD_def window_def nth_rolling_std)

lemma nth_Z_Score:
  "t < length close \<Longrightarrow>
   Z_Score close ! t = fdiv (fsub (Fin (close ! t)) (SMA close ! t)) (STD close ! t)"
  by (simp add: Z_Score_def)

lemma nth_Upper:
  "t < length close \<Longrightarrow>
   Upper close ! t = fadd (SMA close ! t) (fmul (STD close ! t) (Fin (3 / 2)))"
  by (simp add: Upper_def)

lemma nth_Lower:
  "t < length close \<Longrightarrow>
   Lower close ! t = fsub (SMA close ! t) (fmul (STD close ! t) (Fin (3 / 2)))"
  by (simp add: Lower_def)

lemma length_window_at:
  "w \<le> Suc t \<Longrightarrow> t < length xs \<Longrightarrow> length (window_at w t xs) = w"
  by (simp add: window_at_def)

lemma nth_window_at:
  "w \<le> Suc t \<Longrightarrow> t < length xs \<Longrightarrow> i < w \<Longrightarrow> window_at w t xs ! i = xs ! (Suc t - w + i)"
  by (simp add: window_at_def)

lemma sum_sq_nonneg: "0 \<le> sum_list (map (\<lambda>y. (y - m)\<^sup>2) (ys :: real list))"
  by (rule sum_list_nonneg) auto

lemma sum_sq_zero_iff:
  "sum_list (map (\<lambda>y. (y - m)\<^sup>2) (ys :: real list)) = 0 \<longleftrightarrow> (\<forall>y \<in> set ys. y = m)"
proof -
  have "sum_list (map (\<lambda>y. (y - m)\<^sup>2) ys) = 0 \<longleftrightarrow> (\<forall>x \<in> set (map (\<lambda>y. (y - m)\<^sup>2) ys). x = 0)"
    by (rule sum_list_nonneg_eq_0_iff) auto
  then show ?thesis by auto
qed

lemma var_nonneg: "d < length ys \<Longrightarrow> 0 \<le> var d ys"
  by (simp add: var_def sum_sq_nonneg)

lemma var_zero_iff:
  "d < length ys \<Longrightarrow> var d ys = 0 \<longleftrightarrow> (\<forall>y \<in> set ys. y = mean ys)"
  by (simp add: var_def sum_sq_zero_iff)

lemma mem_buy_markers:
  "t \<in> set (buy_markers close) \<longleftrightarrow> t < length close \<and> mr_buy (Z_Score close ! t)"
  by (auto simp: buy_markers_def)

lemma mem_sell_markers:
  "t \<in> set (sell_markers close) \<longleftrightarrow> t < length close \<and> mr_sell (Z_Score close ! t)"
  by (auto simp: sell_markers_def)

lemma mem_buy_rows: "t \<in> set (buy_rows zs) \<longleftrightarrow> t < length zs \<and> mr_buy (zs ! t)"
  by (auto simp: buy_rows_def)

lemma mem_sell_rows: "t \<in> set (sell_rows zs) \<longleftrightarrow> t < length zs \<and> mr_sell (zs ! t)"
  by (auto simp: sell_rows_def)

lemma markers_are_rows:
  "buy_markers close = buy_rows (Z_Score close)" "sell_markers close = sell_rows (Z_Score close)"
  by (simp_all add: buy_markers_def sell_markers_def buy_rows_def sell_rows_def)

text \<open>
  Claim C2. With the threshold 1.5, on any Z-Score column, row \<open>t\<close> gets a Buy marker
  exactly when its Z-score is below -1.5 and a Sell marker exactly when it is above 1.5,
  in the comparison of cells (so \<open>-inf\<close> is a Buy and \<open>+inf\<close> a Sell); it gets no marker
  otherwise, that is when the Z-score is NaN or a number in \<open>[-1.5, 1.5]\<close>. The
  markers of the notebook are these selections on its Z-Score column.
\<close>
theorem mean_reversion_classification:
  assumes "t < length zs"
  shows "(t \<in> set (buy_rows zs) \<longleftrightarrow> flt (zs ! t) (Fin (- (3 / 2))))
       \<and> (t \<in> set (sell_rows zs) \<longleftrightarrow> fgt (zs ! t) (Fin (3 / 2)))
       \<and> (t \<notin> set (buy_rows zs) \<and> t \<notin> set (sell_rows zs) \<longleftrightarrow>
            zs ! t = NaN \<or> (\<exists>z. zs ! t = Fin z \<and> - (3 / 2) \<le> z \<and> z \<le> 3 / 2))
       \<and> (zs ! t = NaN \<longrightarrow> t \<notin> set (buy_rows zs) \<and> t \<notin> set (sell_rows zs))
       \<and> (zs ! t = NInf \<longrightarrow> t \<in> set (buy_rows zs))
       \<and> (zs ! t = PInf \<longrightarrow> t \<in> set (sell_rows zs))
       \<and> buy_markers close = buy_rows (Z_Score close)
       \<and> sell_markers close = sell_rows (Z_Score close)"
  using assms
  by (cases "zs ! t")
     (auto simp: mem_buy_rows mem_sell_rows mr_buy_def mr_sell_def fgt_def markers_are_rows)

lemma window_band_break_up: "window_at 20 19 band_break_up = band_break_up"
  by (simp add: window_at_def band_break_up_def)

lemma mean_band_break_up: "mean band_break_up = 10"
  by (simp add: mean_def band_break_up_def)

lemma var_band_break_up: "var 1 band_break_up = 4"
  by (simp add: var_def mean_band_break_up) (simp add: band_break_up_def)

lemma length_band_break_up: "length band_break_up = 20"
  by (simp add: band_break_up_def)

lemma SMA_band_break_up: "SMA band_break_up ! 19 = Fin 10"
  by (simp add: nth_SMA length_band_break_up window_band_break_up mean_band_break_up)

lemma STD_band_break_up: "STD band_break_up ! 19 = Fin 2"
  by (simp add: nth_STD length_band_break_up window_band_break_up
      var_band_break_up [unfolded One_nat_def])

lemma Z_band_break_up: "Z_Score band_break_up ! 19 = Fin 2"
proof -
  have "19 < length band_break_up" by (simp add: band_break_up_def)
  then show ?thesis
    by (simp add: nth_Z_Score SMA_band_break_up STD_band_break_up) (simp add: band_break_up_def)
qed


lemma window_sum:
  assumes "19 \<le> t" "t < length close"
  shows "sum_list (map f (window_at 20 t close)) = (\<Sum>i = t - 19..t. f (close ! i))"
proof -
  have len: "length (window_at 20 t close) = 20"
    using assms by (simp add: length_window_at)
  have "sum_list (map f (window_at 20 t close))
      = (\<Sum>i = 0..<20. map f (window_at 20 t close) ! i)"
    using sum_list_sum_nth [of "map f (window_at 20 t close)"] len by simp
  also have "\<dots> = (\<Sum>i = 0..<20. f (close ! (i + (t - 19))))"
    using assms len by (intro sum.cong) (auto simp: nth_window_at add.commute)
  also have "\<dots> = (\<Sum>i = 0 + (t - 19)..<20 + (t - 19). f (close ! i))"
    by (rule sum.shift_bounds_nat_ivl [symmetric])
  also have "{0 + (t - 19)..<20 + (t - 19)} = {t - 19..t}"
    using assms by auto
  finally show ?thesis .
qed

lemma window_mean:
  assumes "19 \<le> t" "t < length close"
  shows "mean (window_at 20 t close) = (\<Sum>i = t - 19..t. close ! i) / 20"
  using window_sum [OF assms, of "\<lambda>x. x"] assms by (simp add: mean_def length_window_at)

lemma window_var:
  assumes "19 \<le> t" "t < length close"
  shows "var 1 (window_at 20 t close)
       = (\<Sum>i = t - 19..t. (close ! i - (\<Sum>j = t - 19..t. close ! j) / 20)\<^sup>2) / 19"
  using window_sum [OF assms, of "\<lambda>y. (y - mean (window_at 20 t close))\<^sup>2"] assms
  by (simp add: var_def length_window_at window_mean)

lemma constant_window:
  assumes "19 \<le> t" "t < length close" "\<forall>i. t - 19 \<le> i \<and> i \<le> t \<longrightarrow> close ! i = c"
  shows "window_at 20 t close = replicate 20 c"
proof (rule nth_equalityI)
  show "length (window_at 20 t close) = length (replicate 20 c)"
    using assms by (simp add: length_window_at)
next
  fix i assume "i < length (window_at 20 t close)"
  then have i: "i < 20" using assms by (simp add: length_window_at)
  then have "window_at 20 t close ! i = close ! (t - 19 + i)"
    using assms by (simp add: nth_window_at)
  also have "\<dots> = c"
  proof -
    have "t - 19 \<le> t - 19 + i \<and> t - 19 + i \<le> t" using assms(1) i by linarith
    then show ?thesis using assms(3) by blast
  qed
  finally show "window_at 20 t close ! i = replicate 20 c ! i"
    using i by simp
qed

lemma mean_replicate: "0 < n \<Longrightarrow> mean (replicate n c) = c"
  by (simp add: mean_def sum_list_replicate)

lemma var_replicate: "d < n \<Longrightarrow> var d (replicate n c) = 0"
  by (simp add: var_zero_iff mean_replicate)

lemma Z_Score_replicate:
  assumes "t < n"
  shows "Z_Score (replicate n c) ! t = NaN"
proof (cases "t < 19")
  case True
  then show ?thesis
    using assms by (simp add: nth_Z_Score nth_SMA nth_STD)
next
  case False
  then have t19: "19 \<le> t" by simp
  have len: "t < length (replicate n c)" using assms by simp
  have "\<forall>i. t - 19 \<le> i \<and> i \<le> t \<longrightarrow> replicate n c ! i = c"
    using assms by simp
  then have w: "window_at 20 t (replicate n c) = replicate 20 c"
    using t19 len by (intro constant_window)
  show ?thesis
    using t19 assms by (simp add: nth_Z_Score nth_SMA nth_STD w mean_replicate var_replicate)
qed

lemma markers_replicate:
  "buy_markers (replicate n c) = []" "sell_markers (replicate n c) = []"
  by (simp_all add: buy_markers_def sell_markers_def filter_empty_conv Z_Score_replicate
      mr_buy_def mr_sell_def fgt_def)

lemma Z_Score_is_cell:
  "t < length close \<Longrightarrow>
   Z_Score close ! t = z_score_cell (Fin (close ! t)) (SMA close ! t) (STD close ! t)"
  by (simp add: nth_Z_Score z_score_cell_def)

lemma Upper_is_cell:
  "t < length close \<Longrightarrow> Upper close ! t = upper_cell (SMA close ! t) (STD close ! t)"
  by (simp add: nth_Upper upper_cell_def)

lemma Lower_is_cell:
  "t < length close \<Longrightarrow> Lower close ! t = lower_cell (SMA close ! t) (STD close ! t)"
  by (simp add: nth_Lower lower_cell_def)

lemma z_score_cell_zero:
  "z_score_cell (Fin c) (Fin m) (Fin 0) = (if c = m then NaN else if m < c then PInf else NInf)"
  by (simp add: z_score_cell_def)

text \<open>
  Claim C4, as the code has it. The Z-score of a row is \<open>(close - SMA) / STD\<close> on the
  row's cells, and the division has no guard. It is \<open>(close - SMA) / STD\<close> when \<open>SMA\<close>
  and \<open>STD\<close> are numbers and \<open>STD\<close> is not 0. It is NaN when \<open>SMA\<close> or \<open>STD\<close> is NaN,
  and when \<open>STD\<close> is 0 and the close equals \<open>SMA\<close>. When \<open>STD\<close> is 0 and the close
  differs from \<open>SMA\<close> it is \<open>+inf\<close> or \<open>-inf\<close>, and such a row gets a Sell or a Buy
  marker. None of these is a failure. If the close is constant over the 20 rows ending
  at \<open>t\<close>, then in exact arithmetic \<open>SMA(t)\<close> is that close, \<open>STD(t) = 0\<close> and the Z-score
  is NaN. A row with a NaN Z-score gets neither marker, and a series that is constant
  throughout gets no marker at all.
\<close>
theorem z_score_division_by_zero:
  assumes "t < length close"
  shows "Z_Score close ! t = z_score_cell (Fin (close ! t)) (SMA close ! t) (STD close ! t)
       \<and> (s \<noteq> 0 \<longrightarrow> z_score_cell (Fin c) (Fin m) (Fin s) = Fin ((c - m) / s))
       \<and> z_score_cell (Fin c) mc NaN = NaN
       \<and> z_score_cell (Fin c) NaN sc = NaN
       \<and> z_score_cell (Fin c) (Fin m) (Fin 0)
           = (if c = m then NaN else if m < c then PInf else NInf)
       \<and> (19 \<le> t \<and> (\<forall>i. t - 19 \<le> i \<and> i \<le> t \<longrightarrow> close ! i = close ! t)
            \<longrightarrow> SMA close ! t = Fin (close ! t) \<and> STD close ! t = Fin 0
                \<and> Z_Score close ! t = NaN)
       \<and> (Z_Score close ! t = NaN
            \<longrightarrow> t \<notin> set (buy_markers close) \<and> t \<notin> set (sell_markers close))
       \<and> (Z_Score close ! t = PInf \<longrightarrow> t \<in> set (sell_markers close))
       \<and> (Z_Score close ! t = NInf \<longrightarrow> t \<in> set (buy_markers close))
       \<and> buy_markers (replicate n k) = [] \<and> sell_markers (replicate n k) = []"
proof (intro conjI impI)
  show "Z_Score close ! t = z_score_cell (Fin (close ! t)) (SMA close ! t) (STD close ! t)"
    using assms by (rule Z_Score_is_cell)
next
  assume "s \<noteq> 0"
  then show "z_score_cell (Fin c) (Fin m) (Fin s) = Fin ((c - m) / s)"
    by (simp add: z_score_cell_def)
next
  show "z_score_cell (Fin c) mc NaN = NaN" "z_score_cell (Fin c) NaN sc = NaN"
    by (simp_all add: z_score_cell_def)
next
  show "z_score_cell (Fin c) (Fin m) (Fin 0)
           = (if c = m then NaN else if m < c then PInf else NInf)"
    by (rule z_score_cell_zero)
next
  assume h: "19 \<le> t \<and> (\<forall>i. t - 19 \<le> i \<and> i \<le> t \<longrightarrow> close ! i = close ! t)"
  have t19: "19 \<le> t"
    using h by (rule conjunct1)
  have w: "window_at 20 t close = replicate 20 (close ! t)"
    using t19 assms h [THEN conjunct2] by (rule constant_window)
  show sma: "SMA close ! t = Fin (close ! t)"
    using t19 assms by (simp add: nth_SMA w mean_replicate)
  show std: "STD close ! t = Fin 0"
    using t19 assms by (simp add: nth_STD w var_replicate)
  show "Z_Score close ! t = NaN"
    using assms by (simp add: nth_Z_Score sma std)
next
  assume "Z_Score close ! t = NaN"
  then show "t \<notin> set (buy_markers close)" "t \<notin> set (sell_markers close)"
    by (simp_all add: mem_buy_markers mem_sell_markers mr_buy_def mr_sell_def fgt_def)
next
  assume "Z_Score close ! t = PInf"
  then show "t \<in> set (sell_markers close)"
    using assms by (simp add: mem_sell_markers mr_sell_def fgt_def)
next
  assume "Z_Score close ! t = NInf"
  then show "t \<in> set (buy_markers close)"
    using assms by (simp add: mem_buy_markers mr_buy_def)
next
  show "buy_markers (replicate n k) = []" "sell_markers (replicate n k) = []"
    by (rule markers_replicate)+
qed

text \<open>
  Claim C4 as stated says that the Z-score is undefined whenever \<open>STD\<close> is 0. On a row
  with close 13, \<open>SMA\<close> 10 and \<open>STD\<close> 0 the Z-score is \<open>+inf\<close> and the row is selected
  for a Sell marker.
\<close>
theorem z_score_division_counterexample:
  "z_score_cell (Fin 13) (Fin 10) (Fin 0) = PInf
   \<and> z_score_cell (Fin 13) (Fin 10) (Fin 0) \<noteq> NaN
   \<and> 0 \<in> set (sell_rows [z_score_cell (Fin 13) (Fin 10) (Fin 0)])"
  by (simp add: z_score_cell_def mem_sell_rows mr_sell_def fgt_def)

text \<open>
  Claim C8, as the code has it. The bands are \<open>SMA \<plusminus> 1.5 STD\<close> and the markers compare
  the Z-score with the same \<open>\<plusminus> 1.5\<close>. In exact arithmetic, on every row whose \<open>STD\<close> is a
  positive number, the Z-score is below -1.5 exactly when the close is below the lower
  band, and above 1.5 exactly when the close is above the upper band. The \<open>Upper\<close>,
  \<open>Lower\<close> and \<open>Z-Score\<close> columns are these row computations on the \<open>SMA\<close> and \<open>STD\<close>
  columns.
\<close>
theorem band_threshold_exact:
  assumes "0 < s"
  shows "upper_cell (Fin m) (Fin s) = Fin (m + s * (3 / 2))
       \<and> lower_cell (Fin m) (Fin s) = Fin (m - s * (3 / 2))
       \<and> z_score_cell (Fin c) (Fin m) (Fin s) = Fin ((c - m) / s)
       \<and> (mr_buy (z_score_cell (Fin c) (Fin m) (Fin s))
            \<longleftrightarrow> flt (Fin c) (lower_cell (Fin m) (Fin s)))
       \<and> (mr_sell (z_score_cell (Fin c) (Fin m) (Fin s))
            \<longleftrightarrow> fgt (Fin c) (upper_cell (Fin m) (Fin s)))
       \<and> (t < length close \<longrightarrow>
            Upper close ! t = upper_cell (SMA close ! t) (STD close ! t)
          \<and> Lower close ! t = lower_cell (SMA close ! t) (STD close ! t)
          \<and> Z_Score close ! t
              = z_score_cell (Fin (close ! t)) (SMA close ! t) (STD close ! t))"
proof -
  have b: "(c - m) / s < - (3 / 2) \<longleftrightarrow> c < m - s * (3 / 2)"
    using assms by (simp add: field_simps)
  have a: "3 / 2 < (c - m) / s \<longleftrightarrow> m + s * (3 / 2) < c"
    using assms by (simp add: field_simps)
  have z: "z_score_cell (Fin c) (Fin m) (Fin s) = Fin ((c - m) / s)"
    using assms by (simp add: z_score_cell_def)
  show ?thesis
    using a b assms
    by (simp add: z upper_cell_def lower_cell_def mr_buy_def mr_sell_def fgt_def
        Upper_is_cell Lower_is_cell Z_Score_is_cell)
qed

subsection \<open>A row on the band, in float64\<close>

lemma round_even_near:
  assumes "of_int n - 1 / 2 < x" "x < of_int n + 1 / 2"
  shows "round_even x = n"
proof (cases "of_int n \<le> x")
  case True
  then have "\<lfloor>x\<rfloor> = n" using assms(2) by (intro floor_unique) auto
  then show ?thesis using assms(2) by (simp add: round_even_def Let_def)
next
  case False
  then have "\<lfloor>x\<rfloor> = n - 1" using assms(1) by (intro floor_unique) auto
  then show ?thesis using assms(1) False by (simp add: round_even_def Let_def)
qed

lemma ulp_of_binade:
  assumes "2 powr of_int e \<le> \<bar>x\<bar>" "\<bar>x\<bar> < 2 powr (of_int e + 1)"
  shows "ulp_of x = 2 powi (e - 52)"
proof -
  have "0 < \<bar>x\<bar>" using assms(1) by (smt (verit) powr_gt_zero)
  then have "\<lfloor>log 2 \<bar>x\<bar>\<rfloor> = e"
    using assms by (simp add: floor_log_eq_powr_iff)
  then show ?thesis by (simp add: ulp_of_def)
qed

lemma f64_binade:
  assumes "2 powr of_int e \<le> \<bar>x\<bar>" "\<bar>x\<bar> < 2 powr (of_int e + 1)"
    "of_int n - 1 / 2 < x / 2 powi (e - 52)" "x / 2 powi (e - 52) < of_int n + 1 / 2"
  shows "f64 x = of_int n * 2 powi (e - 52)"
proof -
  have "x \<noteq> 0" using assms(1) by (smt (verit) powr_gt_zero)
  then show ?thesis
    using ulp_of_binade [OF assms(1,2)] round_even_near [OF assms(3,4)]
    by (simp add: f64_def)
qed

lemma step_a: "f64 ((2 - 1 / 2 ^ 52) * (3 / 2)) = 3 - 1 / 2 ^ 51"
proof -
  have "f64 ((2 - 1 / 2 ^ 52) * (3 / 2)) = of_int (3 * 2 ^ 51 - 1) * 2 powi (1 - 52)"
    by (rule f64_binade) (simp_all add: power_int_minus)
  also have "\<dots> = 3 - 1 / 2 ^ 51"
    by (simp add: power_int_minus field_simps)
  finally show ?thesis .
qed


lemma step_b: "f64 (10 + (3 - 1 / 2 ^ 51)) = 13"
proof -
  have "f64 (10 + (3 - 1 / 2 ^ 51)) = of_int (13 * 2 ^ 49) * 2 powi (3 - 52)"
    by (rule f64_binade) (simp_all add: power_int_minus)
  also have "\<dots> = 13"
    by (simp add: power_int_minus field_simps)
  finally show ?thesis .
qed

lemma step_c: "f64 (13 - 10) = 3"
proof -
  have "f64 (13 - 10) = of_int (3 * 2 ^ 51) * 2 powi (1 - 52)"
    by (rule f64_binade) (simp_all add: power_int_minus)
  also have "\<dots> = 3"
    by (simp add: power_int_minus field_simps)
  finally show ?thesis .
qed

lemma step_d: "f64 (3 / (2 - 1 / 2 ^ 52)) = 3 / 2 + 1 / 2 ^ 52"
proof -
  have "f64 (3 / (2 - 1 / 2 ^ 52)) = of_int (3 * 2 ^ 51 + 1) * 2 powi (0 - 52)"
    by (rule f64_binade) (simp_all add: power_int_minus)
  also have "\<dots> = 3 / 2 + 1 / 2 ^ 52"
    by (simp add: power_int_minus field_simps)
  finally show ?thesis .
qed

lemma step_s: "f64 (2 - 1 / 2 ^ 52) = 2 - 1 / 2 ^ 52"
proof -
  have "f64 (2 - 1 / 2 ^ 52) = of_int (2 ^ 53 - 1) * 2 powi (0 - 52)"
    by (rule f64_binade) (simp_all add: power_int_minus)
  also have "\<dots> = 2 - 1 / 2 ^ 52"
    by (simp add: power_int_minus field_simps)
  finally show ?thesis .
qed

text \<open>
  Claim C8 as stated holds for the columns the code computes, which are float64. On a
  row with close 13, \<open>SMA\<close> 10 and \<open>STD\<close> the float just below 2 (1.9999999999999998),
  the rounded Z-score is \<open>1.5 + 2\<^sup>-\<^sup>5\<^sup>2\<close> (1.5000000000000002), above 1.5, so the row is
  selected for a Sell marker; the rounded upper band is exactly 13, and the close 13 is
  not above it.
\<close>
theorem band_threshold_counterexample:
  "f64 (2 - 1 / 2 ^ 52) = 2 - 1 / 2 ^ 52
   \<and> z_f64 13 10 (2 - 1 / 2 ^ 52) = 3 / 2 + 1 / 2 ^ 52
   \<and> mr_sell (Fin (z_f64 13 10 (2 - 1 / 2 ^ 52)))
   \<and> upper_f64 10 (2 - 1 / 2 ^ 52) = 13
   \<and> \<not> fgt (Fin 13) (Fin (upper_f64 10 (2 - 1 / 2 ^ 52)))"
proof -
  have z: "z_f64 13 10 (2 - 1 / 2 ^ 52) = 3 / 2 + 1 / 2 ^ 52"
    unfolding z_f64_def step_c by (rule step_d)
  have u: "upper_f64 10 (2 - 1 / 2 ^ 52) = 13"
    unfolding upper_f64_def step_a by (rule step_b)
  have m: "mr_sell (Fin (z_f64 13 10 (2 - 1 / 2 ^ 52)))"
    unfolding z by (simp add: mr_sell_def fgt_def)
  have n: "\<not> fgt (Fin 13) (Fin (upper_f64 10 (2 - 1 / 2 ^ 52)))"
    unfolding u by (simp add: fgt_def)
  show ?thesis
    using step_s z m u n by (intro conjI)
qed


text \<open>
  Claim C9. At every row \<open>t\<close> with 20 rows of history (\<open>t \<ge> 19\<close>), \<open>STD(t)\<close> is the
  sample standard deviation of the closes of rows \<open>t - 19, \<dots>, t\<close>: the square root of
  the sum of their squared deviations from their mean, divided by 19. It differs from
  the population value (divisor 20) whenever the 20 closes are not all equal.
\<close>
theorem std_sample_convention:
  assumes "19 \<le> t" "t < length close"
  shows "STD close ! t =
           Fin (sqrt ((\<Sum>i = t - 19..t. (close ! i - (\<Sum>j = t - 19..t. close ! j) / 20)\<^sup>2) / 19))
       \<and> ((\<Sum>i = t - 19..t. (close ! i - (\<Sum>j = t - 19..t. close ! j) / 20)\<^sup>2) \<noteq> 0 \<longrightarrow>
           STD close ! t \<noteq>
           Fin (sqrt ((\<Sum>i = t - 19..t. (close ! i - (\<Sum>j = t - 19..t. close ! j) / 20)\<^sup>2) / 20)))"
  using assms by (simp add: nth_STD window_var [unfolded One_nat_def])

section \<open>Exponential smoothing\<close>

lemma length_ewm_from [simp]: "length (ewm_from a y xs) = length xs"
  by (induction xs arbitrary: y) (simp_all add: Let_def)

lemma length_ewm_raw [simp]: "length (ewm_raw a xs) = length xs"
  by (simp add: ewm_raw_def split: list.splits)

lemma ewm_from_nth_0:
  "xs \<noteq> [] \<Longrightarrow> ewm_from a y xs ! 0 = fadd (fmul (Fin (1 - a)) y) (fmul (Fin a) (xs ! 0))"
  by (cases xs) (simp_all add: Let_def)

lemma ewm_from_nth_Suc:
  "Suc t < length xs \<Longrightarrow>
   ewm_from a y xs ! Suc t =
     fadd (fmul (Fin (1 - a)) (ewm_from a y xs ! t)) (fmul (Fin a) (xs ! Suc t))"
proof (induction xs arbitrary: y t)
  case Nil
  then show ?case by simp
next
  case (Cons x xs)
  show ?case
  proof (cases t)
    case 0
    then show ?thesis
      using Cons.prems by (simp add: Let_def ewm_from_nth_0)
  next
    case (Suc k)
    then show ?thesis
      using Cons.prems Cons.IH [of k] by (simp add: Let_def)
  qed
qed

lemma ewm_raw_nth_0: "xs \<noteq> [] \<Longrightarrow> ewm_raw a xs ! 0 = xs ! 0"
  by (cases xs) (simp_all add: ewm_raw_def)

lemma ewm_raw_nth_Suc:
  assumes "Suc t < length xs"
  shows "ewm_raw a xs ! Suc t =
     fadd (fmul (Fin (1 - a)) (ewm_raw a xs ! t)) (fmul (Fin a) (xs ! Suc t))"
proof (cases xs)
  case Nil
  then show ?thesis using assms by simp
next
  case (Cons x rest)
  show ?thesis
  proof (cases t)
    case 0
    then show ?thesis
      using assms Cons by (simp add: ewm_raw_def ewm_from_nth_0)
  next
    case (Suc k)
    then show ?thesis
      using assms Cons ewm_from_nth_Suc [of k rest a x] by (simp add: ewm_raw_def)
  qed
qed

lemma ewm_raw_nonneg:
  assumes "0 \<le> a" "a \<le> 1" "\<forall>x \<in> set xs. x \<in> Fin ` {0..}" "t < length xs"
  shows "ewm_raw a xs ! t \<in> Fin ` {0..}"
  using assms(4)
proof (induction t)
  case 0
  then have "xs ! 0 \<in> set xs" by simp
  then have "xs ! 0 \<in> Fin ` {0..}" using assms(3) by blast
  then show ?case
    using 0 by (simp add: ewm_raw_nth_0)
next
  case (Suc t)
  then have "ewm_raw a xs ! t \<in> Fin ` {0..}" by simp
  then obtain y where y: "ewm_raw a xs ! t = Fin y" "0 \<le> y"
    by auto
  have "xs ! Suc t \<in> set xs" using Suc.prems by simp
  then have "xs ! Suc t \<in> Fin ` {0..}" using assms(3) by blast
  then obtain x where x: "xs ! Suc t = Fin x" "0 \<le> x"
    by auto
  have "0 \<le> (1 - a) * y + a * x"
    using assms(1,2) y x by simp
  then show ?case
    using Suc.prems y x by (simp add: ewm_raw_nth_Suc)
qed

lemma ewm_raw_zero:
  assumes "\<forall>x \<in> set xs. x = Fin 0" "t < length xs"
  shows "ewm_raw a xs ! t = Fin 0"
  using assms(2)
proof (induction t)
  case 0
  then have "xs ! 0 \<in> set xs" by simp
  then have "xs ! 0 = Fin 0" using assms(1) by blast
  then show ?case
    using 0 by (simp add: ewm_raw_nth_0)
next
  case (Suc t)
  then have prev: "ewm_raw a xs ! t = Fin 0" by simp
  have "xs ! Suc t \<in> set xs" using Suc.prems by simp
  then have "xs ! Suc t = Fin 0" using assms(1) by blast
  then show ?case
    using prev Suc.prems by (simp add: ewm_raw_nth_Suc)
qed

lemma nobs_no_nan: "\<forall>x \<in> set xs. x \<noteq> NaN \<Longrightarrow> nobs xs = length xs"
  by (simp add: nobs_def)

lemma nth_ewm_mean:
  assumes "\<forall>x \<in> set xs. x \<noteq> NaN" "t < length xs"
  shows "ewm_mean a m xs ! t = (if Suc t < m then NaN else ewm_raw a xs ! t)"
proof -
  have "\<forall>x \<in> set (take (Suc t) xs). x \<noteq> NaN"
    using assms(1) by (meson in_set_takeD)
  then have "nobs (take (Suc t) xs) = Suc t"
    using assms(2) by (simp add: nobs_no_nan)
  then show ?thesis
    using assms(2) by (auto simp: ewm_mean_def)
qed

section \<open>Gains and losses\<close>

lemma nth_up_direction:
  "t < length close \<Longrightarrow>
   up_direction close ! t = Fin (if t = 0 then 0 else max (close ! t - close ! (t - 1)) 0)"
  by (simp add: up_direction_def nth_diff1 fgt_def max_def)

lemma nth_down_direction:
  "t < length close \<Longrightarrow>
   down_direction close ! t = Fin (if t = 0 then 0 else max (close ! (t - 1) - close ! t) 0)"
  by (simp add: down_direction_def nth_diff1 max_def)

lemma up_direction_nonneg: "\<forall>x \<in> set (up_direction close). x \<in> Fin ` {0..}"
proof
  fix x assume "x \<in> set (up_direction close)"
  then obtain t where "t < length close" "x = up_direction close ! t"
    by (metis in_set_conv_nth length_up_direction)
  then show "x \<in> Fin ` {0..}"
    by (simp add: nth_up_direction)
qed

lemma down_direction_nonneg: "\<forall>x \<in> set (down_direction close). x \<in> Fin ` {0..}"
proof
  fix x assume "x \<in> set (down_direction close)"
  then obtain t where "t < length close" "x = down_direction close ! t"
    by (metis in_set_conv_nth length_down_direction)
  then show "x \<in> Fin ` {0..}"
    by (simp add: nth_down_direction)
qed

lemma up_direction_no_nan: "\<forall>x \<in> set (up_direction close). x \<noteq> NaN"
  using up_direction_nonneg by blast

lemma down_direction_no_nan: "\<forall>x \<in> set (down_direction close). x \<noteq> NaN"
  using down_direction_nonneg by blast

lemma nth_emaup:
  "t < length close \<Longrightarrow>
   emaup 14 close ! t = (if t < 13 then NaN else ewm_raw (1 / 14) (up_direction close) ! t)"
  by (auto simp: emaup_def nth_ewm_mean up_direction_no_nan)

lemma nth_emadn:
  "t < length close \<Longrightarrow>
   emadn 14 close ! t = (if t < 13 then NaN else ewm_raw (1 / 14) (down_direction close) ! t)"
  by (auto simp: emadn_def nth_ewm_mean down_direction_no_nan)

lemma emaup_nonneg:
  assumes "13 \<le> t" "t < length close"
  shows "\<exists>g. emaup 14 close ! t = Fin g \<and> 0 \<le> g"
proof -
  have "ewm_raw (1 / 14) (up_direction close) ! t \<in> Fin ` {0..}"
    using assms by (intro ewm_raw_nonneg up_direction_nonneg) simp_all
  then show ?thesis
    using assms by (auto simp: nth_emaup)
qed

lemma emadn_nonneg:
  assumes "13 \<le> t" "t < length close"
  shows "\<exists>l. emadn 14 close ! t = Fin l \<and> 0 \<le> l"
proof -
  have "ewm_raw (1 / 14) (down_direction close) ! t \<in> Fin ` {0..}"
    using assms by (intro ewm_raw_nonneg down_direction_nonneg) simp_all
  then show ?thesis
    using assms by (auto simp: nth_emadn)
qed

lemma nth_RSI:
  "t < length close \<Longrightarrow>
   RSI close ! t = rsi_cell (emadn 14 close ! t) (fdiv (emaup 14 close ! t) (emadn 14 close ! t))"
  by (simp add: RSI_def rsi_def relative_strength_def)

lemma rsi_cell_NaN [simp]: "rsi_cell NaN NaN = NaN"
  by (simp add: rsi_cell_def)

lemma rsi_cell_Fin:
  assumes "0 \<le> g" "0 \<le> l"
  shows "rsi_cell (Fin l) (fdiv (Fin g) (Fin l)) =
           Fin (if l = 0 then 100 else 100 - 100 / (1 + g / l))"
proof (cases "l = 0")
  case True
  then show ?thesis by (simp add: rsi_cell_def)
next
  case False
  then have "0 \<le> g / l" using assms by simp
  then have "1 + g / l \<noteq> 0" by linarith
  then show ?thesis
    using False by (simp add: rsi_cell_def)
qed

lemma rsi_formula_bounds:
  assumes "0 \<le> g" "0 < l"
  shows "0 \<le> 100 - 100 / (1 + g / l)" "100 - 100 / (1 + g / l) \<le> (100::real)"
proof -
  have "1 \<le> 1 + g / l" using assms by simp
  then have "100 / (1 + g / l) \<le> 100 / 1"
    by (intro divide_left_mono) simp_all
  then show "0 \<le> 100 - 100 / (1 + g / l)" by simp
  have "0 \<le> 100 / (1 + g / l)"
    using \<open>1 \<le> 1 + g / l\<close> by simp
  then show "100 - 100 / (1 + g / l) \<le> (100::real)" by simp
qed

lemma RSI_cases:
  assumes "t < length close"
  shows "(t < 13 \<and> RSI close ! t = NaN)
       \<or> (13 \<le> t \<and> (\<exists>g l. emaup 14 close ! t = Fin g \<and> emadn 14 close ! t = Fin l
              \<and> 0 \<le> g \<and> 0 \<le> l
              \<and> RSI close ! t = Fin (if l = 0 then 100 else 100 - 100 / (1 + g / l))))"
proof (cases "t < 13")
  case True
  then show ?thesis
    using assms by (simp add: nth_RSI nth_emadn)
next
  case False
  then have t: "13 \<le> t" by simp
  obtain g where g: "emaup 14 close ! t = Fin g" "0 \<le> g"
    using emaup_nonneg [OF t assms] by blast
  obtain l where l: "emadn 14 close ! t = Fin l" "0 \<le> l"
    using emadn_nonneg [OF t assms] by blast
  have "RSI close ! t = Fin (if l = 0 then 100 else 100 - 100 / (1 + g / l))"
    using assms g l by (simp only: nth_RSI rsi_cell_Fin)
  then show ?thesis
    using t g l by blast
qed

lemma RSI_nan_iff: "t < length close \<Longrightarrow> RSI close ! t = NaN \<longleftrightarrow> t < 13"
  using RSI_cases [of t close] by auto

lemma RSI_range:
  assumes "t < length close" "RSI close ! t = Fin r"
  shows "0 \<le> r \<and> r \<le> 100"
proof -
  obtain g l where gl: "0 \<le> g" "0 \<le> l"
    "RSI close ! t = Fin (if l = 0 then 100 else 100 - 100 / (1 + g / l))"
    using RSI_cases [OF assms(1)] assms(2) by auto
  show ?thesis
  proof (cases "l = 0")
    case True
    then show ?thesis using gl assms(2) by simp
  next
    case False
    then have "0 < l" using gl by simp
    then show ?thesis
      using rsi_formula_bounds [OF gl(1), of l] gl(3) assms(2) False by simp
  qed
qed

section \<open>The smoothed averages of gains and losses\<close>

lemma gain_simps:
  "gain close 0 = 0" "gain close (Suc t) = max (close ! Suc t - close ! t) 0"
  "loss close 0 = 0" "loss close (Suc t) = max (close ! t - close ! Suc t) 0"
  by (simp_all add: gain_def loss_def)

lemma ewm_raw_gain:
  "t < length close \<Longrightarrow>
   ewm_raw (1 / 14) (up_direction close) ! t = Fin (wilder_avg (gain close) t)"
proof (induction t)
  case 0
  then have "length (up_direction close) \<noteq> 0" by simp
  then have "up_direction close \<noteq> []" by (simp only: length_0_conv not_False_eq_True)
  then show ?case
    using 0 by (simp add: ewm_raw_nth_0 nth_up_direction gain_simps)
next
  case (Suc t)
  then have prev: "ewm_raw (1 / 14) (up_direction close) ! t = Fin (wilder_avg (gain close) t)"
    by simp
  have "Suc t < length (up_direction close)" using Suc.prems by simp
  then show ?case
    using Suc.prems prev by (simp add: ewm_raw_nth_Suc nth_up_direction gain_simps)
qed

lemma ewm_raw_loss:
  "t < length close \<Longrightarrow>
   ewm_raw (1 / 14) (down_direction close) ! t = Fin (wilder_avg (loss close) t)"
proof (induction t)
  case 0
  then have "length (down_direction close) \<noteq> 0" by simp
  then have "down_direction close \<noteq> []" by (simp only: length_0_conv not_False_eq_True)
  then show ?case
    using 0 by (simp add: ewm_raw_nth_0 nth_down_direction gain_simps)
next
  case (Suc t)
  then have prev: "ewm_raw (1 / 14) (down_direction close) ! t = Fin (wilder_avg (loss close) t)"
    by simp
  have "Suc t < length (down_direction close)" using Suc.prems by simp
  then show ?case
    using Suc.prems prev by (simp add: ewm_raw_nth_Suc nth_down_direction gain_simps)
qed

lemma emaup_wilder:
  "13 \<le> t \<Longrightarrow> t < length close \<Longrightarrow> emaup 14 close ! t = Fin (wilder_avg (gain close) t)"
  by (simp add: nth_emaup ewm_raw_gain)

lemma emadn_wilder:
  "13 \<le> t \<Longrightarrow> t < length close \<Longrightarrow> emadn 14 close ! t = Fin (wilder_avg (loss close) t)"
  by (simp add: nth_emadn ewm_raw_loss)

text \<open>
  Claim C5. Every RSI cell is NaN or a number in \<open>[0, 100]\<close>. At every row \<open>t \<ge> 13\<close>
  (so at every row with 14 earlier rows) the average gain is the 14-period smoothed
  average of the single-period gains of the close, started at row 0, and the average
  loss is that of the single-period losses; both are non-negative numbers. With \<open>g\<close> the
  average gain and \<open>l\<close> the average loss, \<open>RSI(t) = 100 - 100 / (1 + g / l)\<close> when \<open>l\<close> is
  not 0, and \<open>RSI(t) = 100\<close> when \<open>l = 0\<close> and \<open>g > 0\<close>.
\<close>
theorem rsi_wilder_formula:
  assumes "t < length close"
  shows "(RSI close ! t = NaN \<or> (\<exists>r. RSI close ! t = Fin r \<and> 0 \<le> r \<and> r \<le> 100))
       \<and> (13 \<le> t \<longrightarrow>
            emaup 14 close ! t = Fin (wilder_avg (gain close) t)
          \<and> emadn 14 close ! t = Fin (wilder_avg (loss close) t)
          \<and> 0 \<le> wilder_avg (gain close) t \<and> 0 \<le> wilder_avg (loss close) t
          \<and> (wilder_avg (loss close) t \<noteq> 0 \<longrightarrow>
               RSI close ! t
                 = Fin (100 - 100 / (1 + wilder_avg (gain close) t / wilder_avg (loss close) t)))
          \<and> (wilder_avg (loss close) t = 0 \<and> 0 < wilder_avg (gain close) t \<longrightarrow>
               RSI close ! t = Fin 100))"
proof (intro conjI impI)
  show "RSI close ! t = NaN \<or> (\<exists>r. RSI close ! t = Fin r \<and> 0 \<le> r \<and> r \<le> 100)"
  proof (cases "RSI close ! t")
    case (Fin r)
    then show ?thesis using RSI_range [OF assms Fin] by simp
  next
    case NaN
    then show ?thesis by simp
  next
    case NInf
    then show ?thesis using RSI_cases [OF assms] by auto
  next
    case PInf
    then show ?thesis using RSI_cases [OF assms] by auto
  qed
next
  assume t: "13 \<le> t"
  show up: "emaup 14 close ! t = Fin (wilder_avg (gain close) t)"
    using t assms by (rule emaup_wilder)
  show dn: "emadn 14 close ! t = Fin (wilder_avg (loss close) t)"
    using t assms by (rule emadn_wilder)
  obtain g l where gl: "emaup 14 close ! t = Fin g" "emadn 14 close ! t = Fin l"
    "0 \<le> g" "0 \<le> l"
    "RSI close ! t = Fin (if l = 0 then 100 else 100 - 100 / (1 + g / l))"
    using RSI_cases [OF assms] t by auto
  have g: "g = wilder_avg (gain close) t" using gl(1) up by simp
  have l: "l = wilder_avg (loss close) t" using gl(2) dn by simp
  show "0 \<le> wilder_avg (gain close) t" "0 \<le> wilder_avg (loss close) t"
    using gl(3,4) g l by simp_all
  {
    assume "wilder_avg (loss close) t \<noteq> 0"
    then show "RSI close ! t
                 = Fin (100 - 100 / (1 + wilder_avg (gain close) t / wilder_avg (loss close) t))"
      using gl(5) g l by simp
  }
  {
    assume "wilder_avg (loss close) t = 0 \<and> 0 < wilder_avg (gain close) t"
    then show "RSI close ! t = Fin 100"
      using gl(5) l by simp
  }
qed

section \<open>Constant series\<close>

lemma up_direction_replicate: "\<forall>x \<in> set (up_direction (replicate n c)). x = Fin 0"
proof
  fix x assume "x \<in> set (up_direction (replicate n c))"
  then obtain t where "t < n" "x = up_direction (replicate n c) ! t"
    by (metis in_set_conv_nth length_up_direction length_replicate)
  then show "x = Fin 0"
    by (simp add: nth_up_direction)
qed

lemma down_direction_replicate: "\<forall>x \<in> set (down_direction (replicate n c)). x = Fin 0"
proof
  fix x assume "x \<in> set (down_direction (replicate n c))"
  then obtain t where "t < n" "x = down_direction (replicate n c) ! t"
    by (metis in_set_conv_nth length_down_direction length_replicate)
  then show "x = Fin 0"
    by (simp add: nth_down_direction)
qed

lemma emaup_replicate:
  "13 \<le> t \<Longrightarrow> t < n \<Longrightarrow> emaup 14 (replicate n c) ! t = Fin 0"
  by (simp add: nth_emaup ewm_raw_zero up_direction_replicate)

lemma emadn_replicate:
  "13 \<le> t \<Longrightarrow> t < n \<Longrightarrow> emadn 14 (replicate n c) ! t = Fin 0"
  by (simp add: nth_emadn ewm_raw_zero down_direction_replicate)

lemma RSI_replicate:
  assumes "t < n"
  shows "RSI (replicate n c) ! t = (if t < 13 then NaN else Fin 100)"
proof (cases "t < 13")
  case True
  then show ?thesis
    using assms by (simp add: nth_RSI nth_emaup nth_emadn)
next
  case False
  then show ?thesis
    using assms by (simp add: nth_RSI emaup_replicate emadn_replicate rsi_cell_def)
qed

lemma Momentum_5D_replicate:
  "t < n \<Longrightarrow> Momentum_5D (replicate n c) ! t = (if t < 5 \<or> c = 0 then NaN else Fin 0)"
  by (simp add: Momentum_5D_def nth_pct_change)

lemma signal_cell_flat [simp]: "signal_cell NaN r = 0" "signal_cell (Fin 0) r = 0"
  by (simp_all add: signal_cell_def buy_cond_def sell_cond_def fgt_def)

text \<open>
  Claim C10, as the code has it. On a close series that is constant, the average gain and
  the average loss are both 0 at every row \<open>t \<ge> 13\<close>; \<open>RSI(t)\<close> is NaN for the first 13
  rows and is 100 at every later row, because \<open>RSIIndicator\<close> returns 100 wherever the
  average loss is 0; and the momentum signal is Neutral at every row (the 5-day momentum
  is NaN or 0).
\<close>
theorem rsi_constant_series:
  assumes "t < n"
  shows "(t < 13 \<longrightarrow> RSI (replicate n c) ! t = NaN)
       \<and> (13 \<le> t \<longrightarrow> emaup 14 (replicate n c) ! t = Fin 0
                      \<and> emadn 14 (replicate n c) ! t = Fin 0
                      \<and> RSI (replicate n c) ! t = Fin 100)
       \<and> Signal (replicate n c) ! t = 0"
  using assms
  by (simp add: RSI_replicate emaup_replicate emadn_replicate nth_Signal Momentum_5D_replicate)

text \<open>
  Claim C10 as stated says that the RSI of a constant series is undefined at every row,
  and not 100. On 14 closes of 50 the RSI of row 13 is 100.
\<close>
theorem rsi_constant_counterexample:
  "RSI (replicate 14 50) ! 13 = Fin 100 \<and> RSI (replicate 14 50) ! 13 \<noteq> NaN"
  by (simp add: RSI_replicate)

section \<open>Warm-up\<close>

lemma Momentum_5D_nan_iff:
  assumes "t < length close"
  shows "Momentum_5D close ! t = NaN \<longleftrightarrow> t < 5 \<or> (close ! t = 0 \<and> close ! (t - 5) = 0)"
  using assms by (simp add: Momentum_5D_def nth_pct_change fsub_def)

text \<open>
  Claim C3, as the code has it. \<open>Momentum_5D(t)\<close> is NaN for rows 0 to 4 and, at a later
  row, exactly when \<open>close(t)\<close> and \<open>close(t - 5)\<close> are both 0. \<open>SMA(t)\<close> and \<open>STD(t)\<close>
  (window 20) are NaN exactly for the first 19 rows. The Z-score is NaN for the first 19
  rows and is not NaN at any later row whose \<open>STD(t)\<close> is not 0 (on one row: whenever
  the close, \<open>SMA\<close> and \<open>STD\<close> are numbers and \<open>STD\<close> is not 0). \<open>RSI(t)\<close> is NaN
  exactly for the first 13 rows (0 to 12) and is a number from row 13 on.
\<close>
theorem warmup_region:
  assumes "t < length close"
  shows "(Momentum_5D close ! t = NaN \<longleftrightarrow> t < 5 \<or> (close ! t = 0 \<and> close ! (t - 5) = 0))
       \<and> (SMA close ! t = NaN \<longleftrightarrow> t < 19)
       \<and> (STD close ! t = NaN \<longleftrightarrow> t < 19)
       \<and> (t < 19 \<longrightarrow> Z_Score close ! t = NaN)
       \<and> (19 \<le> t \<and> STD close ! t \<noteq> Fin 0 \<longrightarrow> Z_Score close ! t \<noteq> NaN)
       \<and> (s \<noteq> 0 \<longrightarrow> z_score_cell (Fin c) (Fin m) (Fin s) \<noteq> NaN)
       \<and> (RSI close ! t = NaN \<longleftrightarrow> t < 13)"
  using assms
  by (simp add: Momentum_5D_nan_iff nth_SMA nth_STD nth_Z_Score RSI_nan_iff z_score_cell_def)

text \<open>
  Claim C3 as stated says that the RSI is undefined for the first 14 rows and that
  \<open>Momentum_5D\<close> is defined at every row after the first 5. The RSI of row 13, the 14th
  row, is a number; and on a series of zero closes the 5-day momentum of row 5 is NaN.
\<close>
theorem warmup_counterexample:
  "RSI [1, 2, 3, 4, 5, 6, 7, 8, 9, 10, 11, 12, 13, 14] ! 13 \<noteq> NaN
   \<and> Momentum_5D [0, 0, 0, 0, 0, 0] ! 5 = NaN"
  by (simp add: RSI_nan_iff Momentum_5D_nan_iff)

section \<open>Appending later rows\<close>

lemma pct_change_append:
  assumes "t < length s"
  shows "pct_change p (s @ ext) ! t = pct_change p s ! t"
proof -
  have "t - p < length s" using assms by simp
  then have "(s @ ext) ! (t - p) = s ! (t - p)" "(s @ ext) ! t = s ! t"
    using assms by (simp_all add: nth_append)
  then show ?thesis
    using assms by (simp add: nth_pct_change)
qed

lemma window_at_append:
  "w \<le> Suc t \<Longrightarrow> t < length s \<Longrightarrow> window_at w t (s @ ext) = window_at w t s"
  by (simp add: window_at_def)

lemma SMA_append: "t < length s \<Longrightarrow> SMA (s @ ext) ! t = SMA s ! t"
  by (simp add: nth_SMA window_at_append)

lemma STD_append: "t < length s \<Longrightarrow> STD (s @ ext) ! t = STD s ! t"
  by (simp add: nth_STD window_at_append)

lemma Z_Score_append: "t < length s \<Longrightarrow> Z_Score (s @ ext) ! t = Z_Score s ! t"
  by (simp add: nth_Z_Score SMA_append STD_append nth_append)

lemma up_direction_append:
  assumes "t < length s"
  shows "up_direction (s @ ext) ! t = up_direction s ! t"
proof -
  have "t - 1 < length s" using assms by simp
  then have "(s @ ext) ! (t - 1) = s ! (t - 1)" "(s @ ext) ! t = s ! t"
    using assms by (simp_all add: nth_append)
  then show ?thesis
    using assms by (simp add: nth_up_direction)
qed

lemma down_direction_append:
  assumes "t < length s"
  shows "down_direction (s @ ext) ! t = down_direction s ! t"
proof -
  have "t - 1 < length s" using assms by simp
  then have "(s @ ext) ! (t - 1) = s ! (t - 1)" "(s @ ext) ! t = s ! t"
    using assms by (simp_all add: nth_append)
  then show ?thesis
    using assms by (simp add: nth_down_direction)
qed

lemma ewm_raw_prefix:
  assumes "t < length xs" "t < length ys" "\<forall>i\<le>t. xs ! i = ys ! i"
  shows "ewm_raw a xs ! t = ewm_raw a ys ! t"
  using assms
proof (induction t)
  case 0
  then have "xs \<noteq> []" "ys \<noteq> []" by auto
  then show ?case using 0 by (simp add: ewm_raw_nth_0)
next
  case (Suc t)
  have "ewm_raw a xs ! t = ewm_raw a ys ! t"
    using Suc by simp
  moreover have "xs ! Suc t = ys ! Suc t"
    using Suc.prems by simp
  ultimately show ?case
    using Suc.prems by (simp add: ewm_raw_nth_Suc)
qed

lemma emaup_append: "t < length s \<Longrightarrow> emaup 14 (s @ ext) ! t = emaup 14 s ! t"
  by (simp add: nth_emaup ewm_raw_prefix up_direction_append)

lemma emadn_append: "t < length s \<Longrightarrow> emadn 14 (s @ ext) ! t = emadn 14 s ! t"
  by (simp add: nth_emadn ewm_raw_prefix down_direction_append)

lemma RSI_append: "t < length s \<Longrightarrow> RSI (s @ ext) ! t = RSI s ! t"
  by (simp add: nth_RSI emaup_append emadn_append)

text \<open>
  Claim C6. Appending later rows \<open>ext\<close> to a series \<open>s\<close> changes none of \<open>RSI\<close>, \<open>SMA\<close>,
  \<open>Momentum_1D\<close>, \<open>Momentum_5D\<close>, \<open>STD\<close> and the Z-score at any row \<open>t\<close> of \<open>s\<close>.
\<close>
theorem causality:
  assumes "t < length s"
  shows "RSI (s @ ext) ! t = RSI s ! t
       \<and> SMA (s @ ext) ! t = SMA s ! t
       \<and> Momentum_1D (s @ ext) ! t = Momentum_1D s ! t
       \<and> Momentum_5D (s @ ext) ! t = Momentum_5D s ! t
       \<and> STD (s @ ext) ! t = STD s ! t
       \<and> Z_Score (s @ ext) ! t = Z_Score s ! t"
  using assms
  by (simp add: RSI_append SMA_append STD_append Z_Score_append pct_change_append
      Momentum_1D_def Momentum_5D_def)

text \<open>
  Claim C7. For any indicator values, the momentum signal is one of 1, -1 and 0, its Buy
  and Sell conditions never hold together, the mean-reversion Buy and Sell conditions
  never hold together, and exactly one of Buy, Sell and Neutral holds for the
  mean-reversion markers. So at every row the Signal column holds one of the three
  values and no row gets both a Buy and a Sell marker.
\<close>
theorem signal_exclusivity:
  assumes "t < length close"
  shows "(signal_cell m r = 1 \<or> signal_cell m r = - 1 \<or> signal_cell m r = 0)
       \<and> \<not> (buy_cond m r \<and> sell_cond m r)
       \<and> \<not> (mr_buy z \<and> mr_sell z)
       \<and> ((mr_buy z \<and> \<not> mr_sell z \<and> \<not> mr_neutral z)
          \<or> (\<not> mr_buy z \<and> mr_sell z \<and> \<not> mr_neutral z)
          \<or> (\<not> mr_buy z \<and> \<not> mr_sell z \<and> mr_neutral z))
       \<and> Signal close ! t \<in> {1, - 1, 0}
       \<and> \<not> (t \<in> set (buy_markers close) \<and> t \<in> set (sell_markers close))"
  using assms buy_sell_disjoint [of m r] mr_buy_sell_disjoint [of z]
    mr_buy_sell_disjoint [of "Z_Score close ! t"]
  by (auto simp: signal_cell_def mr_neutral_def nth_Signal mem_buy_markers mem_sell_markers)

section \<open>Concrete runs\<close>

lemma RSI_choppy: "RSI choppy ! 13 = Fin (26572705332810100 / 490839666661891)"
  by code_simp

lemma RSI_spike_fade: "RSI spike_fade ! 13 = Fin (142107167758913500 / 1543953991231503)"
  by code_simp

lemma Momentum_5D_choppy: "Momentum_5D choppy ! 13 = Fin (1 / 9)"
  by code_simp

lemma Momentum_5D_spike_fade: "Momentum_5D spike_fade ! 13 = Fin (- (1 / 20))"
  by code_simp

text \<open>
  The classification theorem of claim C1 run on \<open>choppy\<close> (a Buy at row 13) and on
  \<open>spike_fade\<close> (a Sell at row 13).
\<close>

theorem momentum_signal_classification_witness:
  "13 < length choppy \<and> Signal choppy ! 13 = 1
   \<and> 13 < length spike_fade \<and> Signal spike_fade ! 13 = - 1"
proof -
  have l1: "13 < length choppy" by (simp add: choppy_def)
  have l2: "13 < length spike_fade" by (simp add: spike_fade_def)
  have c1: "fgt (Momentum_5D choppy ! 13) (Fin 0) \<and> fgt (RSI choppy ! 13) (Fin 30)
            \<and> flt (RSI choppy ! 13) (Fin 70)"
    by (simp add: RSI_choppy Momentum_5D_choppy fgt_def)
  have c2: "flt (Momentum_5D spike_fade ! 13) (Fin 0) \<and> fgt (RSI spike_fade ! 13) (Fin 70)"
    by (simp add: RSI_spike_fade Momentum_5D_spike_fade fgt_def)
  show ?thesis
    using momentum_signal_classification [OF l1] momentum_signal_classification [OF l2]
      l1 l2 c1 c2 by blast
qed

lemma length_band_break_down: "length band_break_down = 20"
  by (simp add: band_break_down_def)

lemma window_band_break_down: "window_at 20 19 band_break_down = band_break_down"
  by (simp add: window_at_def band_break_down_def)

lemma mean_band_break_down: "mean band_break_down = 10"
  by (simp add: mean_def band_break_down_def)

lemma var_band_break_down: "var 1 band_break_down = 4"
  by (simp add: var_def mean_band_break_down) (simp add: band_break_down_def)

lemma SMA_band_break_down: "SMA band_break_down ! 19 = Fin 10"
  by (simp add: nth_SMA length_band_break_down window_band_break_down mean_band_break_down)

lemma STD_band_break_down: "STD band_break_down ! 19 = Fin 2"
  by (simp add: nth_STD length_band_break_down window_band_break_down
      var_band_break_down [unfolded One_nat_def])

lemma Z_band_break_down: "Z_Score band_break_down ! 19 = Fin (- 2)"
proof -
  have "19 < length band_break_down" by (simp add: band_break_down_def)
  then show ?thesis
    by (simp add: nth_Z_Score SMA_band_break_down STD_band_break_down)
       (simp add: band_break_down_def)
qed

text \<open>
  The classification theorem of claim C2 run on a column with a number below -1.5, NaN,
  a number above 1.5, both infinities and the tie 1.5.
\<close>

theorem mean_reversion_classification_witness:
  "3 < length [Fin (- 2), NaN, Fin 2, PInf, NInf, Fin (3 / 2)]
   \<and> 0 \<in> set (buy_rows [Fin (- 2), NaN, Fin 2, PInf, NInf, Fin (3 / 2)])
   \<and> 1 \<notin> set (buy_rows [Fin (- 2), NaN, Fin 2, PInf, NInf, Fin (3 / 2)])
   \<and> 1 \<notin> set (sell_rows [Fin (- 2), NaN, Fin 2, PInf, NInf, Fin (3 / 2)])
   \<and> 2 \<in> set (sell_rows [Fin (- 2), NaN, Fin 2, PInf, NInf, Fin (3 / 2)])
   \<and> 3 \<in> set (sell_rows [Fin (- 2), NaN, Fin 2, PInf, NInf, Fin (3 / 2)])
   \<and> 4 \<in> set (buy_rows [Fin (- 2), NaN, Fin 2, PInf, NInf, Fin (3 / 2)])
   \<and> 5 \<notin> set (sell_rows [Fin (- 2), NaN, Fin 2, PInf, NInf, Fin (3 / 2)])"
  using mean_reversion_classification [of 0 "[Fin (- 2), NaN, Fin 2, PInf, NInf, Fin (3 / 2)]"]
    mean_reversion_classification [of 1 "[Fin (- 2), NaN, Fin 2, PInf, NInf, Fin (3 / 2)]"]
    mean_reversion_classification [of 2 "[Fin (- 2), NaN, Fin 2, PInf, NInf, Fin (3 / 2)]"]
    mean_reversion_classification [of 3 "[Fin (- 2), NaN, Fin 2, PInf, NInf, Fin (3 / 2)]"]
    mean_reversion_classification [of 4 "[Fin (- 2), NaN, Fin 2, PInf, NInf, Fin (3 / 2)]"]
    mean_reversion_classification [of 5 "[Fin (- 2), NaN, Fin 2, PInf, NInf, Fin (3 / 2)]"]
  by (simp add: fgt_def)

text \<open>
  The theorem of claim C4 run on 25 closes of 50 (the constant scenario of the
  specification) and on rows with \<open>STD\<close> 2 and \<open>STD\<close> 0.
\<close>

theorem z_score_division_by_zero_witness:
  "24 < length (replicate 25 (50::real))
   \<and> SMA (replicate 25 50) ! 24 = Fin 50 \<and> STD (replicate 25 50) ! 24 = Fin 0
   \<and> Z_Score (replicate 25 50) ! 24 = NaN
   \<and> 24 \<notin> set (buy_markers (replicate 25 50)) \<and> 24 \<notin> set (sell_markers (replicate 25 50))
   \<and> buy_markers (replicate 25 (50::real)) = [] \<and> sell_markers (replicate 25 (50::real)) = []
   \<and> (2::real) \<noteq> 0 \<and> z_score_cell (Fin 14) (Fin 10) (Fin 2) = Fin 2
   \<and> z_score_cell (Fin 13) (Fin 10) (Fin 0) = PInf
   \<and> z_score_cell (Fin 7) (Fin 10) (Fin 0) = NInf
   \<and> z_score_cell (Fin 10) (Fin 10) (Fin 0) = NaN"
proof -
  have l1: "24 < length (replicate 25 (50::real))" by simp
  have full: "(19::nat) \<le> 24" by simp
  have flat: "\<forall>i. 24 - 19 \<le> i \<and> i \<le> 24 \<longrightarrow>
                replicate 25 (50::real) ! i = replicate 25 50 ! 24"
    by simp
  have last: "replicate 25 (50::real) ! 24 = 50" by simp
  have nz: "(2::real) \<noteq> 0" by simp
  have a: "SMA (replicate 25 50) ! 24 = Fin (replicate 25 50 ! 24)
           \<and> STD (replicate 25 50) ! 24 = Fin 0 \<and> Z_Score (replicate 25 50) ! 24 = NaN
           \<and> 24 \<notin> set (buy_markers (replicate 25 50))
           \<and> 24 \<notin> set (sell_markers (replicate 25 50))
           \<and> buy_markers (replicate 25 (50::real)) = []
           \<and> sell_markers (replicate 25 (50::real)) = []"
    using z_score_division_by_zero [OF l1, where n = 25 and k = 50] full flat by blast
  have b: "z_score_cell (Fin 14) (Fin 10) (Fin 2) = Fin ((14 - 10) / 2)"
    using z_score_division_by_zero [OF l1, where c = 14 and m = 10 and s = 2] nz by blast
  have c: "z_score_cell (Fin 13) (Fin 10) (Fin 0) = PInf"
    using z_score_division_by_zero [OF l1, where c = 13 and m = 10] by simp
  have d: "z_score_cell (Fin 7) (Fin 10) (Fin 0) = NInf"
    using z_score_division_by_zero [OF l1, where c = 7 and m = 10] by simp
  have e: "z_score_cell (Fin 10) (Fin 10) (Fin 0) = NaN"
    using z_score_division_by_zero [OF l1, where c = 10 and m = 10] by simp
  show ?thesis
    using a b c d e l1 last by simp
qed

text \<open>
  The theorem of claim C8 run on rows with \<open>SMA\<close> 10 and \<open>STD\<close> 2: the bands are 13 and
  7, a close of 14 is above the upper band and is a Sell, a close of 13 is neither.
\<close>

theorem band_threshold_exact_witness:
  "(0::real) < 2
   \<and> upper_cell (Fin 10) (Fin 2) = Fin 13 \<and> lower_cell (Fin 10) (Fin 2) = Fin 7
   \<and> z_score_cell (Fin 14) (Fin 10) (Fin 2) = Fin 2
   \<and> mr_sell (z_score_cell (Fin 14) (Fin 10) (Fin 2))
   \<and> fgt (Fin 14) (upper_cell (Fin 10) (Fin 2))
   \<and> \<not> mr_sell (z_score_cell (Fin 13) (Fin 10) (Fin 2))
   \<and> \<not> fgt (Fin 13) (upper_cell (Fin 10) (Fin 2))
   \<and> Upper band_break_up ! 19 = Fin 13 \<and> Lower band_break_up ! 19 = Fin 7"
proof -
  have p: "(0::real) < 2" by simp
  have l: "19 < length band_break_up" by (simp add: length_band_break_up)
  have u: "upper_cell (Fin 10) (Fin 2) = Fin 13 \<and> lower_cell (Fin 10) (Fin 2) = Fin 7"
    using band_threshold_exact [OF p, of 10] by simp
  have g: "fgt (Fin 14) (upper_cell (Fin 10) (Fin 2))"
    using u by (simp add: fgt_def)
  have h: "\<not> fgt (Fin 13) (upper_cell (Fin 10) (Fin 2))"
    using u by (simp add: fgt_def)
  have s14: "mr_sell (z_score_cell (Fin 14) (Fin 10) (Fin 2))"
    using band_threshold_exact [OF p, where m = 10 and c = 14] g by blast
  have z14: "z_score_cell (Fin 14) (Fin 10) (Fin 2) = Fin ((14 - 10) / 2)"
    using band_threshold_exact [OF p, where m = 10 and c = 14] by blast
  have s13: "\<not> mr_sell (z_score_cell (Fin 13) (Fin 10) (Fin 2))"
    using band_threshold_exact [OF p, where m = 10 and c = 13] h by blast
  have col: "Upper band_break_up ! 19 = Fin 13 \<and> Lower band_break_up ! 19 = Fin 7"
    using band_threshold_exact [OF p, where m = 10 and t = 19 and close = band_break_up] l u
    by (simp add: SMA_band_break_up STD_band_break_up)
  show ?thesis
    using p u g h s14 z14 s13 col by simp
qed

text \<open>
  The theorem of claim C9 run on \<open>band_break_up\<close>: the sum of squared deviations is 76,
  so the divisor 19 gives 2 and the divisor 20 does not.
\<close>

theorem std_sample_convention_witness:
  "(19::nat) \<le> 19 \<and> 19 < length band_break_up
   \<and> sqrt ((\<Sum>i = 0..19. (band_break_up ! i - (\<Sum>j = 0..19. band_break_up ! j) / 20)\<^sup>2) / 19) = 2
   \<and> sqrt ((\<Sum>i = 0..19. (band_break_up ! i - (\<Sum>j = 0..19. band_break_up ! j) / 20)\<^sup>2) / 20) \<noteq> 2"
proof -
  have l: "19 < length band_break_up" by (simp add: length_band_break_up)
  have nz: "(\<Sum>i = 0..19. (band_break_up ! i - (\<Sum>j = 0..19. band_break_up ! j) / 20)\<^sup>2) \<noteq> 0"
  proof
    assume "(\<Sum>i = 0..19. (band_break_up ! i - (\<Sum>j = 0..19. band_break_up ! j) / 20)\<^sup>2) = 0"
    then have "STD band_break_up ! 19 = Fin 0"
      using window_var [of 19 band_break_up] l by (simp add: nth_STD)
    then show False by (simp add: STD_band_break_up)
  qed
  show ?thesis
    using std_sample_convention [of 19 band_break_up] l nz
    by (simp add: STD_band_break_up)
qed


text \<open>
  The warm-up theorem run on row 19 of \<open>band_break_up\<close>, where every indicator is a
  number, and on row 4 of \<open>spec_example\<close>, where none is.
\<close>

theorem warmup_region_witness:
  "19 < length band_break_up
   \<and> Momentum_5D band_break_up ! 19 \<noteq> NaN \<and> SMA band_break_up ! 19 \<noteq> NaN
   \<and> STD band_break_up ! 19 \<noteq> NaN \<and> Z_Score band_break_up ! 19 \<noteq> NaN
   \<and> RSI band_break_up ! 19 \<noteq> NaN
   \<and> 4 < length spec_example \<and> Momentum_5D spec_example ! 4 = NaN
   \<and> RSI spec_example ! 4 = NaN \<and> SMA spec_example ! 4 = NaN
   \<and> STD spec_example ! 4 = NaN \<and> Z_Score spec_example ! 4 = NaN"
proof -
  have l1: "19 < length band_break_up" by (simp add: length_band_break_up)
  have l2: "4 < length spec_example" by (simp add: spec_example_def)
  have c: "band_break_up ! 19 \<noteq> 0" by (simp add: band_break_up_def)
  have s: "STD band_break_up ! 19 \<noteq> Fin 0" by (simp add: STD_band_break_up)
  show ?thesis
    using warmup_region [OF l1] warmup_region [OF l2] l1 l2 c s by simp
qed

lemma gain_choppy: "wilder_avg (gain choppy) 13 = 265727053328101 / 793714773254144"
  by code_simp

lemma loss_choppy: "wilder_avg (loss choppy) 13 = 16079472380985 / 56693912375296"
  by code_simp

lemma gain_steady_rise: "wilder_avg (gain steady_rise) 13 = 490839666661891 / 793714773254144"
  by code_simp

lemma loss_steady_rise: "wilder_avg (loss steady_rise) 13 = 0"
  by code_simp

text \<open>
  The theorem of claim C5 run on \<open>choppy\<close>, whose RSI at row 13 is about 54.137, and on
  \<open>steady_rise\<close>, whose average loss is 0 and whose average gain is positive.
\<close>

theorem rsi_wilder_formula_witness:
  "13 < length choppy \<and> (13::nat) \<le> 13
   \<and> emaup 14 choppy ! 13 = Fin (265727053328101 / 793714773254144)
   \<and> emadn 14 choppy ! 13 = Fin (16079472380985 / 56693912375296)
   \<and> RSI choppy ! 13 = Fin (26572705332810100 / 490839666661891)
   \<and> 13 < length steady_rise
   \<and> emadn 14 steady_rise ! 13 = Fin 0
   \<and> RSI steady_rise ! 13 = Fin 100"
proof -
  have l1: "13 < length choppy" by (simp add: choppy_def)
  have l2: "13 < length steady_rise" by (simp add: steady_rise_def)
  have nz: "wilder_avg (loss choppy) 13 \<noteq> 0" by (simp add: loss_choppy)
  have v: "100 - 100 / (1 + wilder_avg (gain choppy) 13 / wilder_avg (loss choppy) 13)
           = (26572705332810100 / 490839666661891 :: real)"
    by (simp add: gain_choppy loss_choppy)
  have z: "wilder_avg (loss steady_rise) 13 = 0 \<and> 0 < wilder_avg (gain steady_rise) 13"
    by (simp add: gain_steady_rise loss_steady_rise)
  have a: "emaup 14 choppy ! 13 = Fin (wilder_avg (gain choppy) 13)
         \<and> emadn 14 choppy ! 13 = Fin (wilder_avg (loss choppy) 13)
         \<and> RSI choppy ! 13
             = Fin (100 - 100 / (1 + wilder_avg (gain choppy) 13 / wilder_avg (loss choppy) 13))"
    using rsi_wilder_formula [OF l1] nz by simp
  have b: "emadn 14 steady_rise ! 13 = Fin (wilder_avg (loss steady_rise) 13)
         \<and> RSI steady_rise ! 13 = Fin 100"
    using rsi_wilder_formula [OF l2] z by simp
  show ?thesis
    using a b l1 l2 by (simp add: v gain_choppy loss_choppy loss_steady_rise)
qed

lemma Momentum_5D_spec_example: "Momentum_5D spec_example ! 5 = Fin (2 / 25)"
  by (simp add: Momentum_5D_def nth_pct_change spec_example_def)

lemma Momentum_1D_spec_example: "Momentum_1D spec_example ! 5 = Fin (1 / 26)"
  by (simp add: Momentum_1D_def nth_pct_change spec_example_def)

text \<open>
  The theorem of claim C6 run on \<open>spec_example\<close> extended by two later rows.
\<close>

theorem causality_witness:
  "5 < length spec_example
   \<and> Momentum_5D (spec_example @ [90, 120]) ! 5 = Fin (2 / 25)
   \<and> Momentum_1D (spec_example @ [90, 120]) ! 5 = Fin (1 / 26)
   \<and> RSI (spec_example @ [90, 120]) ! 5 = NaN
   \<and> SMA (spec_example @ [90, 120]) ! 5 = NaN"
proof -
  have l: "5 < length spec_example" by (simp add: spec_example_def)
  have r: "RSI spec_example ! 5 = NaN" using l by (simp add: RSI_nan_iff)
  have m: "SMA spec_example ! 5 = NaN" using l by (simp add: nth_SMA)
  show ?thesis
    using causality [OF l, of "[90, 120]"] l r m
    by (simp add: Momentum_5D_spec_example Momentum_1D_spec_example)
qed

text \<open>
  The theorem of claim C7 run on the cells \<open>Momentum_5D = 1\<close>, \<open>RSI = 50\<close>,
  \<open>Z-Score = 2\<close> and on the last row of \<open>band_break_up\<close>.
\<close>

theorem signal_exclusivity_witness:
  "19 < length band_break_up
   \<and> signal_cell (Fin 1) (Fin 50) = 1 \<and> \<not> sell_cond (Fin 1) (Fin 50)
   \<and> mr_sell (Fin 2) \<and> \<not> mr_buy (Fin 2) \<and> \<not> mr_neutral (Fin 2)
   \<and> 19 \<in> set (sell_markers band_break_up) \<and> 19 \<notin> set (buy_markers band_break_up)"
proof -
  have l: "19 < length band_break_up" by (simp add: length_band_break_up)
  have b: "buy_cond (Fin 1) (Fin 50)" by (simp add: buy_cond_def fgt_def)
  have s: "mr_sell (Fin 2)" by (simp add: mr_sell_def fgt_def)
  have k: "19 \<in> set (sell_markers band_break_up)"
    using l s by (simp add: mem_sell_markers Z_band_break_up)
  have one: "signal_cell (Fin 1) (Fin 50) = 1" using b by (simp add: signal_cell_def)
  show ?thesis
    using signal_exclusivity [OF l, of "Fin 1" "Fin 50" "Fin 2"] l b s k one by blast
qed

text \<open>
  The constant-series theorem run on 25 closes of 50, at rows 20 and 3.
\<close>

theorem rsi_constant_series_witness:
  "(20::nat) < 25 \<and> RSI (replicate 25 50) ! 20 = Fin 100
   \<and> emaup 14 (replicate 25 50) ! 20 = Fin 0 \<and> emadn 14 (replicate 25 50) ! 20 = Fin 0
   \<and> Signal (replicate 25 50) ! 20 = 0
   \<and> (3::nat) < 25 \<and> RSI (replicate 25 50) ! 3 = NaN \<and> Signal (replicate 25 50) ! 3 = 0"
proof -
  have a: "(20::nat) < 25" and b: "(3::nat) < 25" by simp_all
  show ?thesis
    using rsi_constant_series [OF a, of 50] rsi_constant_series [OF b, of 50] by simp
qed

end
